theory Spec2Isabelle
  imports Complex_Main "HOL-Library.Char_ord" "HOL-Library.List_Lexorder"
begin

section \<open>Python values used by the swap module\<close>

text \<open>
  The repository is a Python program (\<^verbatim>\<open>core/swap_module.py\<close>, \<^verbatim>\<open>core/bot.py\<close>).
  Python integers are unbounded and are modelled by \<^typ>\<open>int\<close>. A Python string is modelled
  by \<^typ>\<open>string\<close>, read as a list of code points below 256. An exception is a value of
  \<open>exn\<close>: \<open>RuntimeError\<close> is what the module raises itself, \<open>LibraryError\<close> stands for any
  exception raised below it (httpx, web3, the interpreter); both carry the text that
  \<^verbatim>\<open>str(e)\<close> returns. Only subclasses of \<^verbatim>\<open>Exception\<close> are represented.
\<close>

datatype exn = RuntimeError string | LibraryError string

fun exn_str :: "exn \<Rightarrow> string" where
  "exn_str (RuntimeError m) = m"
| "exn_str (LibraryError m) = m"

subsection \<open>Strings\<close>

text \<open>\<^verbatim>\<open>str.isspace\<close> on the code points below 256, as \<^verbatim>\<open>str.strip()\<close> uses it.\<close>

definition str_is_space :: "char \<Rightarrow> bool" where
  "str_is_space c = (let n = (of_char c :: nat) in
     (9 \<le> n \<and> n \<le> 13) \<or> (28 \<le> n \<and> n \<le> 32) \<or> n = 133 \<or> n = 160)"

text \<open>The white space that \<^verbatim>\<open>int(s, base)\<close> skips around a literal.\<close>

definition int_is_space :: "char \<Rightarrow> bool" where
  "int_is_space c = (let n = (of_char c :: nat) in
     (9 \<le> n \<and> n \<le> 13) \<or> n = 32 \<or> n = 133 \<or> n = 160)"

definition py_strip :: "string \<Rightarrow> string" where
  "py_strip s = rev (dropWhile str_is_space (rev (dropWhile str_is_space s)))"

definition lower_char :: "char \<Rightarrow> char" where
  "lower_char c = (let n = (of_char c :: nat) in
     if (65 \<le> n \<and> n \<le> 90) \<or> (192 \<le> n \<and> n \<le> 222 \<and> n \<noteq> 215)
     then char_of (n + 32) else c)"

definition py_lower :: "string \<Rightarrow> string" where
  "py_lower s = map lower_char s"

definition upper_char :: "char \<Rightarrow> char" where
  "upper_char c = (let n = (of_char c :: nat) in
     if 97 \<le> n \<and> n \<le> 122 then char_of (n - 32) else c)"

definition upper_str :: "string \<Rightarrow> string" where
  "upper_str s = map upper_char s"

definition startswith :: "string \<Rightarrow> string \<Rightarrow> bool" where
  "startswith s p = (take (length p) s = p)"

fun join :: "string \<Rightarrow> string list \<Rightarrow> string" where
  "join sep [] = []"
| "join sep [x] = x"
| "join sep (x # y # ys) = x @ sep @ join sep (y # ys)"

subsection \<open>Integers from and to text\<close>

text \<open>
  The digit table of \<^verbatim>\<open>int(s, base)\<close>: \<open>0-9\<close>, then the letters in either case from 10
  on; 37 marks a character that is no digit in any base.
\<close>

definition digit_value :: "char \<Rightarrow> nat" where
  "digit_value c = (let n = (of_char c :: nat) in
     if 48 \<le> n \<and> n \<le> 57 then n - 48
     else if 97 \<le> n \<and> n \<le> 122 then n - 87
     else if 65 \<le> n \<and> n \<le> 90 then n - 55
     else 37)"

text \<open>
  The digit scan of \<^verbatim>\<open>int(s, base)\<close>: digits, with single underscores between them. It
  returns the value, the number of digits read and the rest of the text; \<open>None\<close> is the
  syntax error of a doubled or trailing underscore.
\<close>

fun scan_digits :: "nat \<Rightarrow> char \<Rightarrow> nat \<Rightarrow> nat \<Rightarrow> string \<Rightarrow> (nat \<times> nat \<times> string) option" where
  "scan_digits b prev acc n [] = (if prev = CHR ''_'' then None else Some (acc, n, []))"
| "scan_digits b prev acc n (c # cs) =
     (if c = CHR ''_'' then (if prev = CHR ''_'' then None else scan_digits b c acc n cs)
      else if digit_value c < b then scan_digits b c (b * acc + digit_value c) (Suc n) cs
      else if prev = CHR ''_'' then None
      else Some (acc, n, c # cs))"

definition int_sign :: "string \<Rightarrow> int \<times> string" where
  "int_sign s = (case s of
       c # r \<Rightarrow> if c = CHR ''+'' then (1, r) else if c = CHR ''-'' then (- 1, r) else (1, s)
     | [] \<Rightarrow> (1, s))"

text \<open>A base prefix (\<open>0x\<close> for 16, \<open>0o\<close> for 8, \<open>0b\<close> for 2) and one underscore after it.\<close>

definition int_prefix :: "nat \<Rightarrow> string \<Rightarrow> string" where
  "int_prefix b s = (case s of
       z # x # r \<Rightarrow>
         if z = CHR ''0'' \<and>
            ((b = 16 \<and> (x = CHR ''x'' \<or> x = CHR ''X'')) \<or>
             (b = 8 \<and> (x = CHR ''o'' \<or> x = CHR ''O'')) \<or>
             (b = 2 \<and> (x = CHR ''b'' \<or> x = CHR ''B'')))
         then (case r of u # r' \<Rightarrow> if u = CHR ''_'' then r' else r | [] \<Rightarrow> r)
         else s
     | _ \<Rightarrow> s)"

text \<open>
  \<^verbatim>\<open>int(s, base)\<close> for a string \<open>s\<close>: white space, a sign, the prefix of the base, the
  digits, white space. Anything else raises \<^verbatim>\<open>ValueError\<close>, whose text quotes the literal
  after the colon (Python's \<^verbatim>\<open>repr\<close> of it, left out here).
\<close>

definition invalid_literal :: "nat \<Rightarrow> exn" where
  "invalid_literal b = LibraryError (''invalid literal for int() with base '' @
     (if b = 16 then ''16'' else if b = 10 then ''10'' else if b = 8 then ''8'' else ''2''))"

definition py_int :: "nat \<Rightarrow> string \<Rightarrow> exn + int" where
  "py_int b s =
     (let (sign, s2) = int_sign (dropWhile int_is_space s);
          s3 = int_prefix b s2
      in if s3 \<noteq> [] \<and> hd s3 = CHR ''_'' then Inl (invalid_literal b)
         else (case scan_digits b (CHR 0x00) 0 0 s3 of
                 None \<Rightarrow> Inl (invalid_literal b)
               | Some (v, n, rest) \<Rightarrow>
                   if n = 0 \<or> dropWhile int_is_space rest \<noteq> [] then Inl (invalid_literal b)
                   else Inr (sign * int v)))"

section \<open>The commitment identifier\<close>

text \<open>
  \<^verbatim>\<open>RhinoSwapModule._quote_id_to_commitment_int\<close>:
  \<^verbatim>\<open>q = quote_id.strip().lower(); if q.startswith("0x"): q = q[2:]; return int(q, 16)\<close>.
\<close>

definition quote_id_to_commitment_int :: "string \<Rightarrow> exn + int" where
  "quote_id_to_commitment_int quote_id =
     (let q = py_lower (py_strip quote_id);
          q = (if startswith q ''0x'' then drop 2 q else q)
      in py_int 16 q)"

text \<open>The number a string of hexadecimal digits denotes, most significant digit first.\<close>

definition hex_value :: "string \<Rightarrow> nat" where
  "hex_value h = foldl (\<lambda>a c. 16 * a + digit_value c) 0 h"


section \<open>Decimal arithmetic and the fee buffer\<close>

text \<open>
  A finite \<^verbatim>\<open>decimal.Decimal\<close> is a signed coefficient and an exponent: \<open>(c, e)\<close> stands for
  \<open>c * 10 ^ e\<close>. \<^verbatim>\<open>Decimal(n)\<close> of an integer \<open>n\<close> is \<open>(n, 0)\<close> and
  \<^verbatim>\<open>Decimal("1.25")\<close> is \<open>(125, - 2)\<close>, both exact.
\<close>

type_synonym decimal = "int \<times> int"

text \<open>The number of decimal digits of a coefficient (one for zero).\<close>

function ndigits :: "int \<Rightarrow> nat" where
  "ndigits n = (if n < 10 then 1 else Suc (ndigits (n div 10)))"
  by pat_completeness auto
termination
  by (relation "measure nat") auto

declare ndigits.simps [simp del]

text \<open>Dropping the last \<open>k\<close> digits of a coefficient under \<^verbatim>\<open>ROUND_HALF_EVEN\<close>.\<close>

definition round_half_even :: "int \<Rightarrow> nat \<Rightarrow> int" where
  "round_half_even c k = (let q = c div 10 ^ k; r = c mod 10 ^ k
     in if 2 * r > 10 ^ k \<or> (2 * r = 10 ^ k \<and> odd q) then q + 1 else q)"

definition decimal_overflow :: exn where
  "decimal_overflow = LibraryError ''[<class 'decimal.Overflow'>]''"

text \<open>
  The rounding every arithmetic result gets from the context: a coefficient of more than
  \<open>prec\<close> digits is rounded to \<open>prec\<close> digits, and a result whose adjusted exponent exceeds
  \<^verbatim>\<open>Emax = 999999\<close> raises \<^verbatim>\<open>decimal.Overflow\<close>. The module never changes the context, so
  \<open>prec\<close> is the default 28. Exponents near \<^verbatim>\<open>Emin\<close> do not arise in this module (its one
  product has exponent \<open>- 2\<close>) and are not treated.
\<close>

definition dec_fix :: "nat \<Rightarrow> decimal \<Rightarrow> exn + decimal" where
  "dec_fix prec d =
     (let (c, e) = d; m = \<bar>c\<bar>; n = ndigits m
      in if m = 0 then Inr d
         else if n \<le> prec then (if e + int n - 1 > 999999 then Inl decimal_overflow else Inr d)
         else
           (let k = n - prec; r = round_half_even m k;
                (m', e') = (if r = 10 ^ prec then (10 ^ (prec - 1), e + int k + 1) else (r, e + int k))
            in if e' + int prec - 1 > 999999 then Inl decimal_overflow
               else Inr (sgn c * m', e')))"

definition dec_mul :: "decimal \<Rightarrow> decimal \<Rightarrow> exn + decimal" where
  "dec_mul x y = dec_fix 28 (fst x * fst y, snd x + snd y)"

text \<open>\<^verbatim>\<open>int(d)\<close> of a decimal truncates towards zero.\<close>

definition int_of_decimal :: "decimal \<Rightarrow> int" where
  "int_of_decimal d = (let (c, e) = d
     in if 0 \<le> e then c * 10 ^ nat e else sgn c * (\<bar>c\<bar> div 10 ^ nat (- e)))"

text \<open>
  The arithmetic of \<^verbatim>\<open>RhinoSwapModule._calc_max_send_wei\<close>, after its two reads:
  \<^verbatim>\<open>fee_buffer = int(Decimal(gas_price * 300_000) * Decimal("1.25"))\<close>,
  \<^verbatim>\<open>max_send = balance - fee_buffer\<close>, \<^verbatim>\<open>return max_send if max_send > 0 else 0\<close>.
\<close>

definition fee_buffer :: "int \<Rightarrow> exn + int" where
  "fee_buffer gas_price =
     (case dec_mul (gas_price * 300000, 0) (125, - 2) of
        Inl x \<Rightarrow> Inl x
      | Inr d \<Rightarrow> Inr (int_of_decimal d))"

definition max_send_of :: "int \<Rightarrow> int \<Rightarrow> exn + int" where
  "max_send_of balance gas_price =
     (case fee_buffer gas_price of
        Inl x \<Rightarrow> Inl x
      | Inr fb \<Rightarrow> (let max_send = balance - fb in Inr (if max_send > 0 then max_send else 0)))"

section \<open>Binary floating point and the gas limit\<close>

text \<open>
  \<^verbatim>\<open>gas_est * 1.20\<close> multiplies an integer by a Python float, an IEEE 754 binary64 number. A
  finite binary64 magnitude is written \<open>(m, x)\<close> for \<open>m * 2 ^ x\<close>; the values met here are
  at least 1 or zero, so subnormal numbers do not arise. Signs are handled by the callers
  (rounding to nearest is symmetric).
\<close>

type_synonym binary64 = "int \<times> int"

text \<open>\<^verbatim>\<open>int.bit_length()\<close> of a non-negative integer.\<close>

function bit_length :: "int \<Rightarrow> nat" where
  "bit_length n = (if n \<le> 0 then 0 else Suc (bit_length (n div 2)))"
  by pat_completeness auto
termination
  by (relation "measure nat") auto

declare bit_length.simps [simp del]

text \<open>Dropping the last \<open>s\<close> bits, rounding to nearest, ties to even.\<close>

definition round_half_even2 :: "int \<Rightarrow> nat \<Rightarrow> int" where
  "round_half_even2 p s = (let q = p div 2 ^ s; r = p mod 2 ^ s
     in if 2 * r > 2 ^ s \<or> (2 * r = 2 ^ s \<and> odd q) then q + 1 else q)"

text \<open>
  The binary64 number nearest to \<open>p * 2 ^ x\<close> (53 significant bits); \<open>None\<close> when the
  rounded value reaches \<open>2 ^ 1024\<close>, which is beyond the largest finite binary64 number.
\<close>

definition round53 :: "int \<Rightarrow> int \<Rightarrow> binary64 option" where
  "round53 p x =
     (let (m, y) = (if bit_length p \<le> 53 then (p, x)
                    else (let s = bit_length p - 53 in (round_half_even2 p s, x + int s)))
      in if int (bit_length m) + y > 1024 then None else Some (m, y))"

text \<open>
  \<^verbatim>\<open>float(n)\<close> for \<open>n \<ge> 0\<close>; \<open>None\<close> is \<^verbatim>\<open>OverflowError: int too large to convert to float\<close>.
\<close>

definition float_of_int :: "int \<Rightarrow> binary64 option" where
  "float_of_int n = round53 n 0"

text \<open>
  The product of two magnitudes; \<open>None\<close> is the infinity, which \<^verbatim>\<open>int()\<close> refuses with
  \<^verbatim>\<open>OverflowError\<close>.
\<close>

definition float_mul :: "binary64 \<Rightarrow> binary64 \<Rightarrow> binary64 option" where
  "float_mul a b = round53 (fst a * fst b) (snd a + snd b)"

text \<open>\<^verbatim>\<open>int(f)\<close> truncates.\<close>

definition int_of_float :: "binary64 \<Rightarrow> int" where
  "int_of_float f = (let (m, x) = f in if 0 \<le> x then m * 2 ^ nat x else m div 2 ^ nat (- x))"

text \<open>The literal \<^verbatim>\<open>1.20\<close>: the binary64 number nearest to 6/5, \<open>0x13333333333333 * 2 ^ - 52\<close>.\<close>

definition float_1_20 :: binary64 where
  "float_1_20 = (5404319552844595, - 52)"

text \<open>\<^verbatim>\<open>int(gas_est * 1.20)\<close>; \<open>None\<close> when the expression raises \<^verbatim>\<open>OverflowError\<close>.\<close>

definition scaled_gas :: "int \<Rightarrow> int option" where
  "scaled_gas gas_est =
     (case float_of_int \<bar>gas_est\<bar> of
        None \<Rightarrow> None
      | Some f \<Rightarrow> (case float_mul f float_1_20 of
                     None \<Rightarrow> None
                   | Some g \<Rightarrow> Some (sgn gas_est * int_of_float g)))"

text \<open>
  The gas limit of \<^verbatim>\<open>RhinoSwapModule._send_native_deposit\<close>, from the outcome of the gas
  estimation:
  \<^verbatim>\<open>try: gas_est = await self._estimate_gas_native_deposit(...); gas_limit = int(gas_est * 1.20)\<close>
  \<^verbatim>\<open>except Exception: gas_limit = 300_000\<close>. The multiplication stands inside the \<^verbatim>\<open>try\<close>.
\<close>

definition gas_limit_of :: "exn + int \<Rightarrow> int" where
  "gas_limit_of est =
     (case est of
        Inl e \<Rightarrow> 300000
      | Inr gas_est \<Rightarrow> (case scaled_gas gas_est of None \<Rightarrow> 300000 | Some g \<Rightarrow> g))"

section \<open>Amounts as text: wei, ether and decimals\<close>

text \<open>The character of a decimal digit.\<close>

definition digit_char :: "int \<Rightarrow> char" where
  "digit_char d = char_of (48 + nat d)"

text \<open>The decimal digits of a non-negative integer, as \<^verbatim>\<open>str(n)\<close> writes them.\<close>

function show_digits :: "int \<Rightarrow> string" where
  "show_digits n = (if n < 10 then [digit_char n] else show_digits (n div 10) @ [digit_char (n mod 10)])"
  by pat_completeness auto
termination
  by (relation "measure nat") auto

declare show_digits.simps [simp del]

definition py_str_int :: "int \<Rightarrow> string" where
  "py_str_int n = (if n < 0 then CHR ''-'' # show_digits (- n) else show_digits n)"

text \<open>The number a string of decimal digits denotes.\<close>

definition dec_value :: "string \<Rightarrow> int" where
  "dec_value ds = foldl (\<lambda>a c. 10 * a + int (digit_value c)) 0 ds"

definition is_dec_digit :: "char \<Rightarrow> bool" where
  "is_dec_digit c = (digit_value c < 10)"

text \<open>
  An exact quotient \<open>c * 10 ^ e\<close> in the form the decimal division returns: trailing zeros
  of the coefficient are dropped while the exponent is below the ideal exponent 0.
\<close>

function reduce_exp :: "int \<Rightarrow> int \<Rightarrow> decimal" where
  "reduce_exp c e = (if e < 0 \<and> c \<noteq> 0 \<and> c mod 10 = 0 then reduce_exp (c div 10) (e + 1) else (c, e))"
  by pat_completeness auto
termination
  by (relation "measure (\<lambda>(c, e). nat (- e))") auto

declare reduce_exp.simps [simp del]

text \<open>
  \<^verbatim>\<open>self._w3.from_wei(number, "ether")\<close>. The function belongs to the web3 library
  (\<^verbatim>\<open>eth_utils.currency.from_wei\<close>), not to the repository; it is modelled by its behaviour:
  0 is returned as 0, a number outside \<open>0 .. 2 ^ 256 - 1\<close> raises \<^verbatim>\<open>ValueError\<close>, and
  otherwise the number is divided by \<open>10 ^ 18\<close> under a precision of 999 digits, which is
  exact for a number of at most 78 digits.
\<close>

definition from_wei_ether :: "int \<Rightarrow> exn + decimal" where
  "from_wei_ether number =
     (if number = 0 then Inr (0, 0)
      else if number < 0 \<or> number > 2 ^ 256 - 1
      then Inl (LibraryError ''value must be between 1 and 2**256 - 1'')
      else Inr (reduce_exp number (- 18)))"

text \<open>
  \<^verbatim>\<open>format(d, "f")\<close>: the decimal in positional notation, with as many fractional digits
  as the exponent says.
\<close>

definition format_f :: "decimal \<Rightarrow> string" where
  "format_f d =
     (let (c, e) = d; sign = (if c < 0 then ''-'' else []); m = \<bar>c\<bar>
      in if 0 \<le> e then (if m = 0 then sign @ ''0'' else sign @ show_digits m @ replicate (nat e) (CHR ''0''))
         else (let k = nat (- e); ds = show_digits (m mod 10 ^ k)
               in sign @ show_digits (m div 10 ^ k) @ ''.'' @ replicate (k - length ds) (CHR ''0'') @ ds))"

definition conversion_syntax :: exn where
  "conversion_syntax = LibraryError ''[<class 'decimal.ConversionSyntax'>]''"

text \<open>The exponent part of a decimal literal: empty, or \<open>e\<close>, a sign and digits.\<close>

definition parse_exponent :: "string \<Rightarrow> int option" where
  "parse_exponent s =
     (case s of
        [] \<Rightarrow> Some 0
      | c # r \<Rightarrow>
          if c = CHR ''e'' \<or> c = CHR ''E''
          then (let (sg, ds) = int_sign r
                in if ds \<noteq> [] \<and> list_all is_dec_digit ds then Some (sg * dec_value ds) else None)
          else None)"

text \<open>
  \<^verbatim>\<open>Decimal(s)\<close> for a string: white space around is stripped and underscores are removed;
  then a sign, digits with at most one point, and an exponent. Anything else raises
  \<^verbatim>\<open>decimal.InvalidOperation\<close>. The construction is exact. The texts of infinities and NaN,
  which neither formatter of the module writes, are not represented.
\<close>

definition parse_decimal :: "string \<Rightarrow> exn + decimal" where
  "parse_decimal s =
     (let t = filter (\<lambda>c. c \<noteq> CHR ''_'') (py_strip s);
          (sg, r) = int_sign t;
          ip = takeWhile is_dec_digit r; r1 = dropWhile is_dec_digit r;
          (fp, r2) = (case r1 of
                        [] \<Rightarrow> ([], r1)
                      | c # r' \<Rightarrow> if c = CHR ''.'' then (takeWhile is_dec_digit r', dropWhile is_dec_digit r')
                                  else ([], r1))
      in if ip = [] \<and> fp = [] then Inl conversion_syntax
         else (case parse_exponent r2 of
                 None \<Rightarrow> Inl conversion_syntax
               | Some x \<Rightarrow> Inr (sg * dec_value (ip @ fp), x - int (length fp))))"

text \<open>
  \<^verbatim>\<open>self._w3.to_wei(d, "ether")\<close> for a decimal \<open>d\<close>, again library code
  (\<^verbatim>\<open>eth_utils.currency.to_wei\<close>) modelled by its behaviour: the product with \<open>10 ^ 18\<close>
  (exact under its 999 digits for every amount the module writes), \<^verbatim>\<open>ValueError\<close> outside
  \<open>0 .. 2 ^ 256 - 1\<close>, and \<^verbatim>\<open>int()\<close> of the result.
\<close>

definition to_wei_ether :: "decimal \<Rightarrow> exn + int" where
  "to_wei_ether d =
     (let (c, e) = d; x = e + 18
      in if c = 0 then Inr 0
         else if c < 0
         then Inl (LibraryError ''Resulting wei value must be between 1 and 2**256 - 1'')
         else (let v = (if 0 \<le> x then c * 10 ^ nat x else c div 10 ^ nat (- x))
               in if v > 2 ^ 256 - 1
                  then Inl (LibraryError ''Resulting wei value must be between 1 and 2**256 - 1'')
                  else Inr v))"

text \<open>
  \<^verbatim>\<open>process_swap\<close>, lines 195-196:
  \<^verbatim>\<open>amount_dec = Decimal(self._w3.from_wei(max_send_wei, "ether")); amount_str = format(amount_dec, "f")\<close>.
\<close>

definition amount_str_max :: "int \<Rightarrow> exn + string" where
  "amount_str_max max_send_wei =
     (case from_wei_ether max_send_wei of Inl x \<Rightarrow> Inl x | Inr d \<Rightarrow> Inr (format_f d))"

text \<open>
  \<^verbatim>\<open>process_swap\<close>, lines 239 and 244:
  \<^verbatim>\<open>value_wei = self._w3.to_wei(Decimal(amount_str), "ether")\<close>, passed on as \<^verbatim>\<open>int(value_wei)\<close>.
\<close>

definition value_wei_of :: "string \<Rightarrow> exn + int" where
  "value_wei_of amount_str =
     (case parse_decimal amount_str of Inl x \<Rightarrow> Inl x | Inr d \<Rightarrow> to_wei_ether d)"

text \<open>\<^verbatim>\<open>s.rstrip(c)\<close> for a single character \<open>c\<close>.\<close>

definition rstrip_char :: "char \<Rightarrow> string \<Rightarrow> string" where
  "rstrip_char c s = rev (dropWhile (\<lambda>x. x = c) (rev s))"

text \<open>The integer nearest to a rational, ties to even.\<close>

definition round_rat_half_even :: "rat \<Rightarrow> int" where
  "round_rat_half_even x = (let f = \<lfloor>x\<rfloor>; r = x - of_int f
     in if r > 1 / 2 \<or> (r = 1 / 2 \<and> odd f) then f + 1 else f)"

text \<open>
  \<^verbatim>\<open>f"{amount:.18f}"\<close>. A finite Python float is a rational number, and the format writes
  its exact value rounded to 18 fractional digits, ties to even. Infinities and NaN are
  not represented.
\<close>

definition format_18f :: "rat \<Rightarrow> string" where
  "format_18f a = (let n = round_rat_half_even (\<bar>a\<bar> * 10 ^ 18)
     in (if a < 0 then ''-'' else []) @ format_f (n, - 18))"

text \<open>
  \<^verbatim>\<open>process_swap\<close>, line 201: \<^verbatim>\<open>amount_str = f"{amount:.18f}".rstrip("0").rstrip(".")\<close>.
\<close>

definition amount_str_explicit :: "rat \<Rightarrow> string" where
  "amount_str_explicit amount = rstrip_char (CHR ''.'') (rstrip_char (CHR ''0'') (format_18f amount))"



section \<open>JSON values\<close>

text \<open>
  What \<^verbatim>\<open>r.json()\<close> returns. A dict is an association list in insertion order (its keys
  are distinct). Numbers with a fraction are not represented.
\<close>

datatype json = JNull | JBool bool | JInt int | JStr string | JList "json list"
  | JObj "(string \<times> json) list"

text \<open>The truth value of \<^verbatim>\<open>if x\<close>, \<^verbatim>\<open>not x\<close> and \<^verbatim>\<open>x or y\<close>.\<close>

fun truthy :: "json \<Rightarrow> bool" where
  "truthy JNull = False"
| "truthy (JBool b) = b"
| "truthy (JInt n) = (n \<noteq> 0)"
| "truthy (JStr s) = (s \<noteq> [])"
| "truthy (JList xs) = (xs \<noteq> [])"
| "truthy (JObj kv) = (kv \<noteq> [])"

fun type_name :: "json \<Rightarrow> string" where
  "type_name JNull = ''NoneType''"
| "type_name (JBool b) = ''bool''"
| "type_name (JInt n) = ''int''"
| "type_name (JStr s) = ''str''"
| "type_name (JList xs) = ''list''"
| "type_name (JObj kv) = ''dict''"

text \<open>A text between single quotes, as Python's messages write names.\<close>

definition quoted :: "string \<Rightarrow> string" where
  "quoted s = CHR 0x27 # s @ [CHR 0x27]"

definition no_attribute :: "json \<Rightarrow> string \<Rightarrow> exn" where
  "no_attribute v a =
     LibraryError (quoted (type_name v) @ '' object has no attribute '' @ quoted a)"

text \<open>\<^verbatim>\<open>d.get(k)\<close>: the value, \<^verbatim>\<open>None\<close> for a missing key; only a dict has the method.\<close>

definition dict_get :: "json \<Rightarrow> string \<Rightarrow> exn + json" where
  "dict_get d k =
     (case d of
        JObj kv \<Rightarrow> Inr (case map_of kv k of None \<Rightarrow> JNull | Some v \<Rightarrow> v)
      | _ \<Rightarrow> Inl (no_attribute d ''get''))"

text \<open>
  \<^verbatim>\<open>d.get(k) or d.get(k1) or ...\<close>: the first value that is true, else the value of the
  last candidate.
\<close>

fun or_gets :: "json \<Rightarrow> string \<Rightarrow> string list \<Rightarrow> exn + json" where
  "or_gets d k [] = dict_get d k"
| "or_gets d k (k' # ks) =
     (case dict_get d k of
        Inl e \<Rightarrow> Inl e
      | Inr v \<Rightarrow> if truthy v then Inr v else or_gets d k' ks)"

fun is_substring :: "string \<Rightarrow> string \<Rightarrow> bool" where
  "is_substring k [] = (k = [])"
| "is_substring k (c # cs) = (startswith (c # cs) k \<or> is_substring k cs)"

text \<open>\<^verbatim>\<open>k in v\<close> for a string \<open>k\<close>.\<close>

definition py_in :: "string \<Rightarrow> json \<Rightarrow> exn + bool" where
  "py_in k v =
     (case v of
        JObj kv \<Rightarrow> Inr (k \<in> set (map fst kv))
      | JList xs \<Rightarrow> Inr (JStr k \<in> set xs)
      | JStr s \<Rightarrow> Inr (is_substring k s)
      | _ \<Rightarrow> Inl (LibraryError (''argument of type '' @ quoted (type_name v) @ '' is not iterable'')))"

text \<open>\<^verbatim>\<open>v.keys()\<close>.\<close>

definition dict_keys :: "json \<Rightarrow> exn + string list" where
  "dict_keys v = (case v of JObj kv \<Rightarrow> Inr (map fst kv) | _ \<Rightarrow> Inl (no_attribute v ''keys''))"

text \<open>\<^verbatim>\<open>v[k]\<close> for a string \<open>k\<close>.\<close>

definition subscript :: "json \<Rightarrow> string \<Rightarrow> exn + json" where
  "subscript v k =
     (case v of
        JObj kv \<Rightarrow> (case map_of kv k of None \<Rightarrow> Inl (LibraryError (quoted k)) | Some x \<Rightarrow> Inr x)
      | JList xs \<Rightarrow> Inl (LibraryError ''list indices must be integers or slices, not str'')
      | JStr s \<Rightarrow> Inl (LibraryError (''string indices must be integers, not '' @ quoted ''str''))
      | _ \<Rightarrow> Inl (LibraryError (quoted (type_name v) @ '' object is not subscriptable'')))"

text \<open>\<^verbatim>\<open>int(v)\<close>.\<close>

definition int_of_json :: "json \<Rightarrow> exn + int" where
  "int_of_json v =
     (case v of
        JInt n \<Rightarrow> Inr n
      | JBool b \<Rightarrow> Inr (if b then 1 else 0)
      | JStr s \<Rightarrow> py_int 10 s
      | _ \<Rightarrow> Inl (LibraryError (''int() argument must be a string, a bytes-like object or a real number, not ''
                 @ quoted (type_name v))))"

section \<open>The world outside the module\<close>

text \<open>
  The module talks to the bridge API over HTTP and to the chain over JSON-RPC. Each
  exchange is recorded as a \<open>call\<close>; the calls a module instance has made so far are kept
  in its state, in order.
\<close>

record http_request =
  req_method :: string
  req_path :: string
  req_json :: "json option"
  req_authorization :: "json option"

record http_response =
  status_code :: int
  resp_text :: string
  resp_json :: "json option"

record tx =
  tx_to :: string
  tx_commitment :: int
  tx_value :: int
  tx_nonce :: int
  tx_chain_id :: int
  tx_gas :: int
  tx_gas_price :: int

datatype call = Http http_request | GetBalance | GasPrice | ChainId
  | EstimateGas string int int | GetTransactionCount | SendTransaction tx

text \<open>
  The world answers each call with a value or with the exception the library raises. An
  answer may depend on the calls made before (two reads of the gas price may differ).
  \<open>w_from_key\<close> is \<^verbatim>\<open>Account.from_key\<close> followed by the checksum address of the account;
  \<open>w_estimate_gas\<close> and \<open>w_send\<close> are the two closures the module hands to a thread
  (\<^verbatim>\<open>_estimate\<close>: build the call and estimate its gas; \<^verbatim>\<open>_build_sign_send\<close>: build, sign,
  broadcast, return the hash in hexadecimal); \<open>w_str\<close> is Python's \<^verbatim>\<open>str()\<close> of a parsed
  JSON list or dict.
\<close>

record world =
  w_from_key :: "string \<Rightarrow> exn + string"
  w_to_checksum_address :: "json \<Rightarrow> exn + string"
  w_http :: "call list \<Rightarrow> http_request \<Rightarrow> exn + http_response"
  w_balance :: "call list \<Rightarrow> exn + int"
  w_gas_price :: "call list \<Rightarrow> exn + int"
  w_chain_id :: "call list \<Rightarrow> exn + int"
  w_estimate_gas :: "call list \<Rightarrow> string \<Rightarrow> int \<Rightarrow> int \<Rightarrow> exn + int"
  w_nonce :: "call list \<Rightarrow> exn + int"
  w_send :: "call list \<Rightarrow> tx \<Rightarrow> exn + string"
  w_str :: "json \<Rightarrow> string"

section \<open>The swap module\<close>

text \<open>
  An instance of \<^verbatim>\<open>RhinoSwapModule\<close>: the fields \<^verbatim>\<open>__init__\<close> sets, and the calls made so
  far. \<open>m_client\<close> says whether \<^verbatim>\<open>self._client\<close> is set.
\<close>

record swap_module =
  api_key :: string
  private_key :: string
  rpc_url :: string
  depositor_address :: string
  recipient_address :: string
  m_client :: bool
  m_jwt :: "json option"
  m_configs :: "json option"
  calls :: "call list"

text \<open>
  \<^verbatim>\<open>RhinoSwapModule.__init__\<close>. \<^verbatim>\<open>from_key\<close> raises on a private key it cannot parse; nothing
  in the constructor catches that.
\<close>

definition new_module :: "world \<Rightarrow> string \<Rightarrow> string \<Rightarrow> string \<Rightarrow> exn + swap_module" where
  "new_module w key_api key_private url =
     (case w_from_key w key_private of
        Inl e \<Rightarrow> Inl e
      | Inr address \<Rightarrow>
          Inr \<lparr>api_key = key_api, private_key = key_private, rpc_url = url,
               depositor_address = address, recipient_address = address,
               m_client = False, m_jwt = None, m_configs = None, calls = []\<rparr>)"

text \<open>\<^verbatim>\<open>cleanup\<close>: close the HTTP client if there is one.\<close>

definition cleanup :: "swap_module \<Rightarrow> swap_module" where
  "cleanup m = (if m_client m then m\<lparr>m_client := False\<rparr> else m)"

text \<open>
  A method of the module is a function from the state of the instance to a result, or
  the exception raised, and the new state.
\<close>

type_synonym 'a action = "swap_module \<Rightarrow> (exn + 'a) \<times> swap_module"

definition ret :: "'a \<Rightarrow> 'a action" where
  "ret x = (\<lambda>m. (Inr x, m))"

definition raise :: "exn \<Rightarrow> 'a action" where
  "raise e = (\<lambda>m. (Inl e, m))"

definition lift :: "exn + 'a \<Rightarrow> 'a action" where
  "lift r = (\<lambda>m. (r, m))"

definition bnd :: "'a action \<Rightarrow> ('a \<Rightarrow> 'b action) \<Rightarrow> 'b action" where
  "bnd f g = (\<lambda>m. case f m of (Inl e, m') \<Rightarrow> (Inl e, m') | (Inr x, m') \<Rightarrow> g x m')"

text \<open>One call to the chain: the answer of the world, and the call recorded.\<close>

definition rpc :: "call \<Rightarrow> (call list \<Rightarrow> exn + 'a) \<Rightarrow> 'a action" where
  "rpc c answer = (\<lambda>m. (answer (calls m), m\<lparr>calls := calls m @ [c]\<rparr>))"

text \<open>
  \<^verbatim>\<open>str(v)\<close> of a JSON value, as an f-string writes it; the text of a list or a dict
  (Python's \<^verbatim>\<open>repr\<close> of its parts) is the world's \<open>w_str\<close>.
\<close>

definition py_str :: "world \<Rightarrow> json \<Rightarrow> string" where
  "py_str w v =
     (case v of
        JStr s \<Rightarrow> s
      | JInt n \<Rightarrow> py_str_int n
      | JBool b \<Rightarrow> (if b then ''True'' else ''False'')
      | JNull \<Rightarrow> ''None''
      | _ \<Rightarrow> w_str w v)"

text \<open>
  \<^verbatim>\<open>_http\<close>: create the client if there is none, send the request (the bearer token goes
  into the \<^verbatim>\<open>authorization\<close> header when it is true), then
  \<^verbatim>\<open>try: data = r.json() except Exception: raise RuntimeError(f"Non-JSON response ...")\<close>,
  \<^verbatim>\<open>if r.status_code >= 400: raise RuntimeError(f"HTTP ...")\<close>, \<^verbatim>\<open>return data\<close>.
\<close>

definition http :: "world \<Rightarrow> string \<Rightarrow> string \<Rightarrow> json option \<Rightarrow> json option \<Rightarrow> json action" where
  "http w method path json_body jwt =
     (\<lambda>m.
        let req = \<lparr>req_method = method, req_path = path, req_json = json_body,
                   req_authorization = (case jwt of
                                          None \<Rightarrow> None
                                        | Some j \<Rightarrow> if truthy j then Some j else None)\<rparr>;
            m' = m\<lparr>m_client := True, calls := calls m @ [Http req]\<rparr>
        in case w_http w (calls m) req of
             Inl e \<Rightarrow> (Inl e, m')
           | Inr r \<Rightarrow>
               (case resp_json r of
                  None \<Rightarrow>
                    (Inl (RuntimeError (''Non-JSON response ('' @ py_str_int (status_code r) @ ''): ''
                       @ take 300 (resp_text r))), m')
                | Some data \<Rightarrow>
                    if status_code r \<ge> 400
                    then (Inl (RuntimeError (''HTTP '' @ py_str_int (status_code r) @ '' '' @ path
                            @ '': '' @ take 800 (py_str w data))), m')
                    else (Inr data, m')))"

text \<open>The request of \<^verbatim>\<open>_get_jwt\<close>, and the candidate fields of the token in its order.\<close>

definition auth_path :: string where
  "auth_path = ''/authentication/auth/apiKey''"

definition extract_jwt :: "json \<Rightarrow> exn + json" where
  "extract_jwt data = or_gets data ''token'' [''jwt'', ''accessToken'', ''authorization'']"

text \<open>
  \<^verbatim>\<open>_get_jwt\<close>: the cached token if there is one; else the request,
  \<^verbatim>\<open>jwt = data.get("token") or data.get("jwt") or data.get("accessToken") or data.get("authorization")\<close>,
  \<^verbatim>\<open>if not jwt: raise RuntimeError(f"Can't find JWT in response: {data}")\<close>, and the token is
  cached and returned.
\<close>

definition fetch_jwt :: "world \<Rightarrow> json action" where
  "fetch_jwt w =
     (\<lambda>m. bnd (http w ''POST'' auth_path (Some (JObj [(''apiKey'', JStr (api_key m))])) None)
            (\<lambda>data. bnd (lift (extract_jwt data))
              (\<lambda>jwt. if \<not> truthy jwt
                 then raise (RuntimeError (''Can't find JWT in response: '' @ py_str w data))
                 else (\<lambda>m'. (Inr jwt, m'\<lparr>m_jwt := Some jwt\<rparr>)))) m)"

definition get_jwt :: "world \<Rightarrow> json action" where
  "get_jwt w =
     (\<lambda>m. case m_jwt m of
            Some j \<Rightarrow> if truthy j then (Inr j, m) else fetch_jwt w m
          | None \<Rightarrow> fetch_jwt w m)"

text \<open>
  \<^verbatim>\<open>_get_configs\<close>: the cached configs if they are true; else
  \<^verbatim>\<open>self._configs = await self._http("GET", "/bridge/configs")\<close>, returned.
\<close>

definition configs_path :: string where
  "configs_path = ''/bridge/configs''"

definition fetch_configs :: "world \<Rightarrow> json action" where
  "fetch_configs w =
     bnd (http w ''GET'' configs_path None None)
       (\<lambda>data m'. (Inr data, m'\<lparr>m_configs := Some data\<rparr>))"

definition get_configs :: "world \<Rightarrow> json action" where
  "get_configs w =
     (\<lambda>m. case m_configs m of
            Some c \<Rightarrow> if truthy c then (Inr c, m) else fetch_configs w m
          | None \<Rightarrow> fetch_configs w m)"

text \<open>
  \<^verbatim>\<open>_calc_max_send_wei\<close>: the balance, the gas price, then the arithmetic of
  \<^const>\<open>max_send_of\<close>.
\<close>

definition calc_max_send_wei :: "world \<Rightarrow> int action" where
  "calc_max_send_wei w =
     bnd (rpc GetBalance (w_balance w))
       (\<lambda>balance. bnd (rpc GasPrice (w_gas_price w))
         (\<lambda>gas_price. lift (max_send_of balance gas_price)))"

text \<open>
  \<^verbatim>\<open>_send_native_deposit\<close>: the contract at the checksum address, the gas price, the gas
  estimate with its fallback (\<^const>\<open>gas_limit_of\<close>: a failed estimation is not an error),
  the nonce, and the transaction built, signed and sent.
\<close>

definition estimate :: "world \<Rightarrow> string \<Rightarrow> int \<Rightarrow> int \<Rightarrow> (exn + int) action" where
  "estimate w bridge commitment value_wei =
     (\<lambda>m. (Inr (w_estimate_gas w (calls m) bridge commitment value_wei),
           m\<lparr>calls := calls m @ [EstimateGas bridge commitment value_wei]\<rparr>))"

definition send_native_deposit :: "world \<Rightarrow> json \<Rightarrow> int \<Rightarrow> int \<Rightarrow> int \<Rightarrow> string action" where
  "send_native_deposit w bridge_address chain commitment value_wei =
     bnd (lift (w_to_checksum_address w bridge_address))
       (\<lambda>bridge. bnd (rpc GasPrice (w_gas_price w))
         (\<lambda>gas_price. bnd (estimate w bridge commitment value_wei)
           (\<lambda>est. bnd (rpc GetTransactionCount (w_nonce w))
             (\<lambda>nonce.
                let t = \<lparr>tx_to = bridge, tx_commitment = commitment, tx_value = value_wei,
                         tx_nonce = nonce, tx_chain_id = chain, tx_gas = gas_limit_of est,
                         tx_gas_price = gas_price\<rparr>
                in rpc (SendTransaction t) (\<lambda>cs. w_send w cs t)))))"

text \<open>The fixed route of the module.\<close>

definition chain_in :: string where "chain_in = ''OPBNB''"
definition chain_out :: string where "chain_out = ''BINANCE''"
definition token_in :: string where "token_in = ''BNB''"
definition token_out :: string where "token_out = ''BNB''"

text \<open>
  \<^verbatim>\<open>process_swap\<close>, lines 168-188: authenticate, fetch the configs, and check the entry of
  the source chain. The result is the token, the chain id and the bridge address.
\<close>

definition load_route :: "world \<Rightarrow> (json \<times> json \<times> json) action" where
  "load_route w =
     bnd (get_jwt w) (\<lambda>jwt.
     bnd (get_configs w) (\<lambda>configs.
     bnd (lift (py_in chain_in configs)) (\<lambda>present.
       if \<not> present
       then bnd (lift (dict_keys configs)) (\<lambda>ks.
              raise (RuntimeError (''chainIn 'OPBNB' not found in configs. Available: ''
                @ join '', '' (sort ks))))
       else
         bnd (lift (subscript configs chain_in)) (\<lambda>chain_cfg.
         bnd (lift (dict_get chain_cfg ''chainId'')) (\<lambda>cid.
         bnd (if truthy cid then ret cid
              else bnd (rpc ChainId (w_chain_id w)) (\<lambda>n. ret (JInt n))) (\<lambda>chain_id.
         bnd (lift (dict_get chain_cfg ''contractAddress'')) (\<lambda>bridge_address.
         bnd (lift (dict_get chain_cfg ''nativeTokenName'')) (\<lambda>native_token_name.
           if \<not> truthy bridge_address
           then raise (RuntimeError ''Missing contractAddress for chain 'OPBNB' in rhino configs'')
           else if truthy native_token_name \<and> JStr token_in \<noteq> native_token_name
           then raise (RuntimeError (''tokenIn 'BNB' != nativeTokenName ''
                  @ quoted (py_str w native_token_name)
                  @ '' for chain 'OPBNB'. This module expects native deposit.''))
           else ret (jwt, chain_id, bridge_address)))))))))"

text \<open>
  \<^verbatim>\<open>process_swap\<close>, lines 190-201: the amount as text. Without an amount, the maximum
  that can be sent; with one, the amount itself, which must be positive. A finite Python
  float is a rational number.
\<close>

definition resolve_amount :: "world \<Rightarrow> rat option \<Rightarrow> string action" where
  "resolve_amount w amount =
     (case amount of
        None \<Rightarrow>
          bnd (calc_max_send_wei w) (\<lambda>max_send_wei.
            if max_send_wei \<le> 0
            then raise (RuntimeError ''Not enough balance to pay gas + amount (amount=None).'')
            else lift (amount_str_max max_send_wei))
      | Some a \<Rightarrow>
          if a \<le> 0 then raise (RuntimeError ''Amount must be > 0 (or None for max balance).'')
          else ret (amount_str_explicit a))"

definition quote_path :: string where
  "quote_path = ''/bridge/quote/bridge-swap/user''"

definition quote_payload :: "swap_module \<Rightarrow> string \<Rightarrow> json" where
  "quote_payload m amount_str =
     JObj [(''chainIn'', JStr chain_in), (''chainOut'', JStr chain_out),
           (''amount'', JStr amount_str), (''mode'', JStr ''pay''),
           (''tokenIn'', JStr token_in), (''tokenOut'', JStr token_out),
           (''depositor'', JStr (depositor_address m)),
           (''recipient'', JStr (recipient_address m)),
           (''amountNative'', JStr ''0''), (''isSda'', JStr ''false'')]"

text \<open>The commitment integer of a committed identifier; only a string has \<^verbatim>\<open>strip\<close>.\<close>

definition commitment_of :: "json \<Rightarrow> exn + int" where
  "commitment_of committed_id =
     (case committed_id of
        JStr s \<Rightarrow> quote_id_to_commitment_int s
      | _ \<Rightarrow> Inl (no_attribute committed_id ''strip''))"

text \<open>
  \<^verbatim>\<open>process_swap\<close>, lines 203-247: request the quote, commit it, derive the commitment
  integer, convert the amount to wei and send the deposit.
\<close>

definition quote_and_deposit :: "world \<Rightarrow> json \<Rightarrow> json \<Rightarrow> json \<Rightarrow> string \<Rightarrow> string action" where
  "quote_and_deposit w jwt chain_id bridge_address amount_str =
     (\<lambda>m.
        bnd (http w ''POST'' quote_path (Some (quote_payload m amount_str)) (Some jwt)) (\<lambda>quote.
        bnd (lift (dict_get quote ''quoteId'')) (\<lambda>quote_id.
          if \<not> truthy quote_id
          then raise (RuntimeError (''Quote has no quoteId: '' @ py_str w quote))
          else
            bnd (http w ''POST'' (''/bridge/quote/commit/'' @ py_str w quote_id) None (Some jwt)) (\<lambda>commit.
            bnd (lift (dict_get commit ''quoteId'')) (\<lambda>committed_id.
              if \<not> truthy committed_id
              then raise (RuntimeError (''Commit failed: '' @ py_str w commit))
              else
                bnd (lift (commitment_of committed_id)) (\<lambda>commitment_int.
                bnd (lift (value_wei_of amount_str)) (\<lambda>value_wei.
                bnd (lift (int_of_json chain_id)) (\<lambda>chain.
                  send_native_deposit w bridge_address chain commitment_int value_wei))))))) m)"

text \<open>
  \<^verbatim>\<open>process_swap\<close>: the three parts in sequence inside \<^verbatim>\<open>try\<close>;
  \<^verbatim>\<open>return True, tx_hash\<close> at the end, \<^verbatim>\<open>except Exception as e: return False, str(e)\<close>.
\<close>

definition swap_steps :: "world \<Rightarrow> rat option \<Rightarrow> string action" where
  "swap_steps w amount =
     bnd (load_route w) (\<lambda>(jwt, chain_id, bridge_address).
     bnd (resolve_amount w amount) (\<lambda>amount_str.
       quote_and_deposit w jwt chain_id bridge_address amount_str))"

definition process_swap :: "world \<Rightarrow> rat option \<Rightarrow> swap_module \<Rightarrow> (bool \<times> string) \<times> swap_module" where
  "process_swap w amount m =
     (case swap_steps w amount m of
        (Inl e, m') \<Rightarrow> ((False, exn_str e), m')
      | (Inr tx_hash, m') \<Rightarrow> ((True, tx_hash), m'))"

section \<open>The orchestrator\<close>

text \<open>The settings \<^verbatim>\<open>core/bot.py\<close> reads from \<^verbatim>\<open>config\<close>.\<close>

record config =
  wallets :: "string list"
  threads :: nat
  rhino_api_key :: string
  opbnb_rpc_url :: string
  delay_min :: int
  delay_max :: int

text \<open>
  Modelled from the spec: \<^verbatim>\<open>file_operations.export_result\<close> lives in \<^verbatim>\<open>loader\<close>, which is
  not among the sources. The spec has the result sink append one record per call; the
  record holds the three arguments \<^verbatim>\<open>safe_swap\<close> passes (address, status, category).
\<close>

type_synonym result_record = "string \<times> bool \<times> string"

definition export_result :: "result_record list \<Rightarrow> string \<Rightarrow> bool \<Rightarrow> string \<Rightarrow> result_record list" where
  "export_result sink address status category = sink @ [(address, status, category)]"

text \<open>
  \<^verbatim>\<open>Bot.safe_swap\<close>, the body under \<^verbatim>\<open>async with semaphore\<close>. The module is constructed
  before the \<^verbatim>\<open>try\<close>; the \<^verbatim>\<open>try\<close> has a \<^verbatim>\<open>finally\<close> (cleanup) and no \<^verbatim>\<open>except\<close>. The result
  is the exception that leaves the coroutine, if any, and the sink. The delay and the log
  lines change neither.
\<close>

definition safe_swap :: "world \<Rightarrow> config \<Rightarrow> string \<Rightarrow> rat option \<Rightarrow> result_record list
    \<Rightarrow> exn option \<times> result_record list" where
  "safe_swap w cfg key amount sink =
     (case new_module w (rhino_api_key cfg) key (opbnb_rpc_url cfg) of
        Inl e \<Rightarrow> (Some e, sink)
      | Inr m \<Rightarrow>
          (let ((status, result), m') = process_swap w amount m;
               sink' = export_result sink (depositor_address m') status ''rhino_bridge'';
               m'' = cleanup m'
           in (None, sink')))"

text \<open>
  \<^verbatim>\<open>Bot.process_swaps\<close>: one task per wallet is created at once, each running \<^verbatim>\<open>safe_swap\<close>
  without an amount, and \<^verbatim>\<open>await asyncio.gather(*tasks)\<close> waits for them. The tasks
  interleave. They share only the semaphore and the sink, and a task touches the sink at
  one moment, when it exports its record; a task that raises never reaches that moment.
  A run of the batch is therefore described by the order in which the tasks reach the
  moment of their export or of their exception: a list of positions in \<^verbatim>\<open>config.wallets\<close>.
  \<^verbatim>\<open>gather\<close> raises the exception of the first task that fails, when it fails: the tasks
  later in the order are still in flight and have written nothing. The result is that
  exception, if any, and the sink at that moment. Each wallet has its own world.

  Which orders occur depends on the delays, on the answers of the network and on the
  capacity of the semaphore; the properties below hold for every order.
\<close>

fun run_in_order :: "(string \<Rightarrow> world) \<Rightarrow> config \<Rightarrow> string list \<Rightarrow> result_record list
    \<Rightarrow> exn option \<times> result_record list" where
  "run_in_order wo cfg [] sink = (None, sink)"
| "run_in_order wo cfg (k # ks) sink =
     (case safe_swap (wo k) cfg k None sink of
        (Some e, sink') \<Rightarrow> (Some e, sink')
      | (None, sink') \<Rightarrow> run_in_order wo cfg ks sink')"

definition process_swaps :: "(string \<Rightarrow> world) \<Rightarrow> config \<Rightarrow> nat list \<Rightarrow> result_record list
    \<Rightarrow> exn option \<times> result_record list" where
  "process_swaps wo cfg order sink =
     run_in_order wo cfg (map (\<lambda>i. wallets cfg ! i) order) sink"

section \<open>Calls made by a run\<close>

text \<open>The calls a run added: those of the state after it that the state before it did not have.\<close>

definition new_calls :: "swap_module \<Rightarrow> swap_module \<Rightarrow> call list" where
  "new_calls m m' = drop (length (calls m)) (calls m')"

definition is_quote_request :: "call \<Rightarrow> bool" where
  "is_quote_request c = (case c of Http r \<Rightarrow> req_path r = quote_path | _ \<Rightarrow> False)"

text \<open>
  The calls of the first part of the workflow: the authentication request, the request
  for the configs, and the read of the chain id.
\<close>

definition route_call :: "call \<Rightarrow> bool" where
  "route_call c =
     (case c of
        Http r \<Rightarrow> (req_method r = ''POST'' \<and> req_path r = auth_path)
                \<or> (req_method r = ''GET'' \<and> req_path r = configs_path)
      | ChainId \<Rightarrow> True
      | _ \<Rightarrow> False)"

text \<open>The gas limits of the transactions broadcast in a list of calls, in order.\<close>

definition sent_gas :: "call list \<Rightarrow> int list" where
  "sent_gas cs = concat (map (\<lambda>c. case c of SendTransaction t \<Rightarrow> [tx_gas t] | _ \<Rightarrow> []) cs)"



text \<open>A run from \<open>m\<close> to \<open>m'\<close> keeps the calls of \<open>m\<close> and adds only calls that satisfy \<open>P\<close>.\<close>

definition extends :: "(call \<Rightarrow> bool) \<Rightarrow> swap_module \<Rightarrow> swap_module \<Rightarrow> bool" where
  "extends P m m' = (take (length (calls m)) (calls m') = calls m \<and> list_all P (new_calls m m'))"

text \<open>
  The two readings of the token rule of the spec: the value of the first candidate field
  that is present, and the value of the first candidate field whose value is true.
\<close>

definition jwt_fields :: "string list" where
  "jwt_fields = [''token'', ''jwt'', ''accessToken'', ''authorization'']"

definition first_present :: "(string \<times> json) list \<Rightarrow> string list \<Rightarrow> json option" where
  "first_present kv ks =
     (case filter (\<lambda>k. map_of kv k \<noteq> None) ks of [] \<Rightarrow> None | k # _ \<Rightarrow> map_of kv k)"

definition first_truthy :: "(string \<times> json) list \<Rightarrow> string list \<Rightarrow> json option" where
  "first_truthy kv ks =
     (case filter (\<lambda>k. case map_of kv k of None \<Rightarrow> False | Some v \<Rightarrow> truthy v) ks of
        [] \<Rightarrow> None
      | k # _ \<Rightarrow> map_of kv k)"

text \<open>Whether the private key of a wallet can be parsed in a world.\<close>

definition parses :: "world \<Rightarrow> string \<Rightarrow> bool" where
  "parses w key = (case w_from_key w key of Inl e \<Rightarrow> False | Inr a \<Rightarrow> True)"

section \<open>The semaphore\<close>

text \<open>
  Modelled from the spec: the semaphore is created in \<^verbatim>\<open>loader\<close>, which is not among the
  sources; the spec gives it the fixed capacity \<open>N\<close> of the configured thread count. It is a
  counter: acquiring waits while the counter is 0 and then decrements it, releasing
  increments it. \<^verbatim>\<open>safe_swap\<close> runs its whole body under \<^verbatim>\<open>async with semaphore\<close>: a task
  acquires once before its body and releases once when the body is left, by return or by
  exception.
\<close>

datatype phase = Waiting | Holding | Finished

record sched =
  sem_value :: nat
  phases :: "phase list"

datatype event = Acquire nat | Release nat

text \<open>One step of a task; \<open>None\<close> when the task cannot take the step in this state.\<close>

fun step :: "sched \<Rightarrow> event \<Rightarrow> sched option" where
  "step s (Acquire i) =
     (if i < length (phases s) \<and> phases s ! i = Waiting \<and> 0 < sem_value s
      then Some (s\<lparr>sem_value := sem_value s - 1, phases := (phases s)[i := Holding]\<rparr>)
      else None)"
| "step s (Release i) =
     (if i < length (phases s) \<and> phases s ! i = Holding
      then Some (s\<lparr>sem_value := sem_value s + 1, phases := (phases s)[i := Finished]\<rparr>)
      else None)"

fun run :: "sched \<Rightarrow> event list \<Rightarrow> sched option" where
  "run s [] = Some s"
| "run s (e # es) = (case step s e of None \<Rightarrow> None | Some s' \<Rightarrow> run s' es)"

text \<open>A batch of \<open>k\<close> wallets under a semaphore of capacity \<open>n\<close>: every task is waiting.\<close>

definition batch :: "nat \<Rightarrow> nat \<Rightarrow> sched" where
  "batch n k = \<lparr>sem_value = n, phases = replicate k Waiting\<rparr>"

definition holders :: "sched \<Rightarrow> nat" where
  "holders s = length (filter (\<lambda>p. p = Holding) (phases s))"

section \<open>Example worlds\<close>

text \<open>
  A world in which every exchange succeeds, except that the private key \<open>bad\<close> cannot be
  parsed: the token is returned under \<open>token\<close>, the route of the source chain is complete,
  the balance is one ether and the gas price 5 gwei.
\<close>

definition ok_response :: "json \<Rightarrow> http_response" where
  "ok_response d = \<lparr>status_code = 200, resp_text = [], resp_json = Some d\<rparr>"

definition example_configs :: json where
  "example_configs = JObj [(''OPBNB'', JObj [(''chainId'', JInt 204),
     (''contractAddress'', JStr ''0xBridge''), (''nativeTokenName'', JStr ''BNB'')])]"

definition example_world :: world where
  "example_world = \<lparr>
     w_from_key = (\<lambda>k. if k = ''bad'' then Inl (LibraryError ''Non-hexadecimal digit found'')
                        else Inr ''0xAbc''),
     w_to_checksum_address = (\<lambda>v. case v of JStr s \<Rightarrow> Inr s
                                   | _ \<Rightarrow> Inl (LibraryError ''Unsupported type'')),
     w_http = (\<lambda>cs req.
        if req_path req = auth_path then Inr (ok_response (JObj [(''token'', JStr ''T'')]))
        else if req_path req = configs_path then Inr (ok_response example_configs)
        else if req_path req = quote_path then Inr (ok_response (JObj [(''quoteId'', JStr ''abc'')]))
        else Inr (ok_response (JObj [(''quoteId'', JStr ''0x2a'')]))),
     w_balance = (\<lambda>cs. Inr 1000000000000000000),
     w_gas_price = (\<lambda>cs. Inr 5000000000),
     w_chain_id = (\<lambda>cs. Inr 204),
     w_estimate_gas = (\<lambda>cs b c v. Inr 21001),
     w_nonce = (\<lambda>cs. Inr 7),
     w_send = (\<lambda>cs t. Inr ''0xdead''),
     w_str = (\<lambda>v. ''{...}'')\<rparr>"

text \<open>The same world with other answers of the bridge API.\<close>

definition world_with_http :: "json \<Rightarrow> json \<Rightarrow> world" where
  "world_with_http auth configs = example_world\<lparr>w_http := (\<lambda>cs req.
     if req_path req = auth_path then Inr (ok_response auth) else Inr (ok_response configs))\<rparr>"

definition example_module :: swap_module where
  "example_module = \<lparr>api_key = ''K'', private_key = ''good'', rpc_url = ''http://rpc'',
     depositor_address = ''0xAbc'', recipient_address = ''0xAbc'',
     m_client = False, m_jwt = None, m_configs = None, calls = []\<rparr>"

definition example_config :: config where
  "example_config = \<lparr>wallets = [''bad'', ''good''], threads = 2, rhino_api_key = ''K'',
     opbnb_rpc_url = ''http://rpc'', delay_min = 0, delay_max = 0\<rparr>"

section \<open>Properties of the commitment identifier\<close>

lemma hex_char_props:
  assumes "digit_value c < 16"
  shows "\<not> str_is_space c" "\<not> int_is_space c" "c \<noteq> CHR ''_''" "c \<noteq> CHR ''x''"
    "c \<noteq> CHR ''+''" "c \<noteq> CHR ''-''" "c \<noteq> CHR ''X''"
  using assms
  by (auto simp: digit_value_def str_is_space_def int_is_space_def Let_def split: if_splits)

lemma lower_char_digit_value:
  "digit_value c < 16 \<Longrightarrow> digit_value (lower_char c) = digit_value c"
  by (auto simp: digit_value_def lower_char_def Let_def split: if_splits)

lemma upper_char_digit_value:
  "digit_value c < 16 \<Longrightarrow> digit_value (upper_char c) = digit_value c"
  by (auto simp: digit_value_def upper_char_def Let_def split: if_splits)

lemma dropWhile_hd: "s \<noteq> [] \<Longrightarrow> \<not> P (hd s) \<Longrightarrow> dropWhile P s = s"
  by (cases s) auto

lemma py_strip_id:
  assumes "s \<noteq> []" "\<not> str_is_space (hd s)" "\<not> str_is_space (last s)"
  shows "py_strip s = s"
proof -
  have "dropWhile str_is_space s = s" using assms by (simp add: dropWhile_hd)
  moreover have "dropWhile str_is_space (rev s) = rev s"
    using assms by (simp add: dropWhile_hd hd_rev)
  ultimately show ?thesis by (simp add: py_strip_def)
qed

lemma scan_digits_all:
  "list_all (\<lambda>c. digit_value c < b) h \<Longrightarrow> b \<le> 36 \<Longrightarrow> p \<noteq> CHR ''_'' \<Longrightarrow>
   scan_digits b p acc n h = Some (foldl (\<lambda>a c. b * a + digit_value c) acc h, n + length h, [])"
proof (induction h arbitrary: p acc n)
  case Nil
  then show ?case by simp
next
  case (Cons c cs)
  then have c: "digit_value c < b" and cs: "list_all (\<lambda>c. digit_value c < b) cs" by simp_all
  from c \<open>b \<le> 36\<close> have "c \<noteq> CHR ''_''" by (auto simp: digit_value_def)
  with Cons.IH [OF cs \<open>b \<le> 36\<close> this] c show ?case by simp
qed

lemma py_int16_hex:
  assumes "h \<noteq> []" "list_all (\<lambda>c. digit_value c < 16) h"
  shows "py_int 16 h = Inr (int (hex_value h))"
proof -
  obtain c cs where h: "h = c # cs" using assms(1) by (cases h) auto
  with assms(2) have c: "digit_value c < 16" by simp
  have sp: "dropWhile int_is_space h = h"
    using h hex_char_props(2) [OF c] by simp
  have sg: "int_sign h = (1, h)"
    using h hex_char_props(5,6) [OF c] by (simp add: int_sign_def)
  have pf: "int_prefix 16 h = h"
  proof (cases cs)
    case Nil
    then show ?thesis using h by (simp add: int_prefix_def)
  next
    case (Cons x r)
    with assms(2) h have "digit_value x < 16" by simp
    then have "x \<noteq> CHR ''x''" "x \<noteq> CHR ''X''" by (rule hex_char_props)+
    then show ?thesis using h Cons by (simp add: int_prefix_def)
  qed
  have us: "hd h \<noteq> CHR ''_''" using h hex_char_props(3) [OF c] by simp
  have sc: "scan_digits 16 (CHR 0x00) 0 0 h = Some (hex_value h, length h, [])"
    using scan_digits_all [OF assms(2), of "CHR 0x00" 0 0] by (simp add: hex_value_def)
  show ?thesis
    using assms(1) by (simp add: py_int_def sp sg pf us sc)
qed

lemma py_lower_hex:
  "list_all (\<lambda>c. digit_value c < 16) h \<Longrightarrow> list_all (\<lambda>c. digit_value c < 16) (py_lower h)"
  by (induction h) (simp_all add: py_lower_def lower_char_digit_value)

lemma hex_value_lower_gen:
  "list_all (\<lambda>c. digit_value c < 16) h \<Longrightarrow>
   foldl (\<lambda>a c. 16 * a + digit_value c) acc (py_lower h) = foldl (\<lambda>a c. 16 * a + digit_value c) acc h"
  by (induction h arbitrary: acc) (simp_all add: py_lower_def lower_char_digit_value)

lemma upper_str_hex:
  "list_all (\<lambda>c. digit_value c < 16) h \<Longrightarrow> list_all (\<lambda>c. digit_value c < 16) (upper_str h)"
  by (induction h) (simp_all add: upper_str_def upper_char_digit_value)

lemma hex_value_upper_gen:
  "list_all (\<lambda>c. digit_value c < 16) h \<Longrightarrow>
   foldl (\<lambda>a c. 16 * a + digit_value c) acc (upper_str h) = foldl (\<lambda>a c. 16 * a + digit_value c) acc h"
  by (induction h arbitrary: acc) (simp_all add: upper_str_def upper_char_digit_value)

lemma commitment_plain:
  assumes "h \<noteq> []" "list_all (\<lambda>c. digit_value c < 16) h"
  shows "quote_id_to_commitment_int h = Inr (int (hex_value h))"
proof -
  obtain c cs where h: "h = c # cs" using assms(1) by (cases h) auto
  have all: "\<And>x. x \<in> set h \<Longrightarrow> digit_value x < 16"
    using assms(2) by (simp add: list_all_iff)
  have "\<not> str_is_space (hd h)" "\<not> str_is_space (last h)"
    using assms(1) all hex_char_props(1) by simp_all
  then have st: "py_strip h = h" using assms(1) by (simp add: py_strip_id)
  have lne: "py_lower h \<noteq> []" using assms(1) by (simp add: py_lower_def)
  have lh: "list_all (\<lambda>c. digit_value c < 16) (py_lower h)" using assms(2) by (rule py_lower_hex)
  have nopre: "\<not> startswith (py_lower h) ''0x''"
  proof (cases cs)
    case Nil
    then show ?thesis using h by (simp add: startswith_def py_lower_def)
  next
    case (Cons x r)
    with lh h have "digit_value (lower_char x) < 16" by (simp add: py_lower_def)
    then have "lower_char x \<noteq> CHR ''x''" by (rule hex_char_props)
    then show ?thesis using h Cons by (simp add: startswith_def py_lower_def)
  qed
  have "quote_id_to_commitment_int h = py_int 16 (py_lower h)"
    by (simp add: quote_id_to_commitment_int_def st nopre)
  also have "\<dots> = Inr (int (hex_value (py_lower h)))" using lne lh by (rule py_int16_hex)
  also have "hex_value (py_lower h) = hex_value h"
    using hex_value_lower_gen [OF assms(2)] by (simp add: hex_value_def)
  finally show ?thesis .
qed

lemma commitment_prefixed:
  assumes "h \<noteq> []" "list_all (\<lambda>c. digit_value c < 16) h" "x = CHR ''x'' \<or> x = CHR ''X''"
  shows "quote_id_to_commitment_int (CHR ''0'' # x # h) = Inr (int (hex_value h))"
proof -
  let ?s = "CHR ''0'' # x # h"
  have all: "\<And>x. x \<in> set h \<Longrightarrow> digit_value x < 16"
    using assms(2) by (simp add: list_all_iff)
  have "\<not> str_is_space (hd ?s)" by (simp add: str_is_space_def)
  moreover have "\<not> str_is_space (last ?s)" using assms(1) all hex_char_props(1) by simp
  ultimately have st: "py_strip ?s = ?s" by (simp add: py_strip_id)
  have "lower_char (CHR ''x'') = CHR ''x''" "lower_char (CHR ''X'') = CHR ''x''"
    "lower_char (CHR ''0'') = CHR ''0''" by code_simp+
  then have lw: "py_lower ?s = CHR ''0'' # CHR ''x'' # py_lower h"
    using assms(3) by (auto simp: py_lower_def)
  have lne: "py_lower h \<noteq> []" using assms(1) by (simp add: py_lower_def)
  have lh: "list_all (\<lambda>c. digit_value c < 16) (py_lower h)" using assms(2) by (rule py_lower_hex)
  have "quote_id_to_commitment_int ?s = py_int 16 (py_lower h)"
    by (simp add: quote_id_to_commitment_int_def st lw startswith_def)
  also have "\<dots> = Inr (int (hex_value (py_lower h)))" using lne lh by (rule py_int16_hex)
  also have "hex_value (py_lower h) = hex_value h"
    using hex_value_lower_gen [OF assms(2)] by (simp add: hex_value_def)
  finally show ?thesis .
qed

text \<open>
  Claim C6. For every non-empty string \<open>h\<close> of hexadecimal digits, the commitment integer is
  the number \<open>h\<close> denotes, and it is the same with a \<open>0x\<close> or \<open>0X\<close> prefix added and with the
  letters in lower or upper case; \<open>0xAB\<close> and \<open>ab\<close> give 171 and \<open>0x2a\<close> gives 42.
\<close>

theorem commitment_prefix_case_invariant:
  assumes "h \<noteq> []" and "list_all (\<lambda>c. digit_value c < 16) h"
  shows "quote_id_to_commitment_int h = Inr (int (hex_value h))
    \<and> quote_id_to_commitment_int (''0x'' @ h) = quote_id_to_commitment_int h
    \<and> quote_id_to_commitment_int (''0X'' @ h) = quote_id_to_commitment_int h
    \<and> quote_id_to_commitment_int (py_lower h) = quote_id_to_commitment_int h
    \<and> quote_id_to_commitment_int (upper_str h) = quote_id_to_commitment_int h
    \<and> quote_id_to_commitment_int (''0x'' @ py_lower h) = quote_id_to_commitment_int h
    \<and> quote_id_to_commitment_int (''0X'' @ upper_str h) = quote_id_to_commitment_int h
    \<and> quote_id_to_commitment_int ''0xAB'' = Inr 171
    \<and> quote_id_to_commitment_int ''ab'' = Inr 171
    \<and> quote_id_to_commitment_int ''0x2a'' = Inr 42"
proof -
  have lne: "py_lower h \<noteq> []" "upper_str h \<noteq> []"
    using assms(1) by (simp_all add: py_lower_def upper_str_def)
  have lh: "list_all (\<lambda>c. digit_value c < 16) (py_lower h)" using assms(2) by (rule py_lower_hex)
  have uh: "list_all (\<lambda>c. digit_value c < 16) (upper_str h)" using assms(2) by (rule upper_str_hex)
  have vl: "hex_value (py_lower h) = hex_value h"
    using hex_value_lower_gen [OF assms(2)] by (simp add: hex_value_def)
  have vu: "hex_value (upper_str h) = hex_value h"
    using hex_value_upper_gen [OF assms(2)] by (simp add: hex_value_def)
  have e1: "quote_id_to_commitment_int ''0xAB'' = Inr 171" by code_simp
  have e2: "quote_id_to_commitment_int ''ab'' = Inr 171" by code_simp
  have e3: "quote_id_to_commitment_int ''0x2a'' = Inr 42" by code_simp
  show ?thesis
    using commitment_plain [OF assms] commitment_prefixed [OF assms]
      commitment_plain [OF lne(1) lh] commitment_plain [OF lne(2) uh]
      commitment_prefixed [OF lne(1) lh] commitment_prefixed [OF lne(2) uh]
    by (simp add: vl vu e1 e2 e3)
qed

theorem commitment_prefix_case_invariant_witness:
  "''aB'' \<noteq> [] \<and> list_all (\<lambda>c. digit_value c < 16) ''aB''
   \<and> quote_id_to_commitment_int ''aB'' = Inr 171
   \<and> quote_id_to_commitment_int ''0xaB'' = Inr 171
   \<and> quote_id_to_commitment_int ''0XAB'' = Inr 171"
proof -
  have h1: "''aB'' \<noteq> []" by simp
  have h2: "list_all (\<lambda>c. digit_value c < 16) ''aB''" by code_simp
  have v: "hex_value ''aB'' = 171" by code_simp
  have u: "upper_str ''aB'' = ''AB''" by code_simp
  show ?thesis
    using commitment_prefix_case_invariant [OF h1 h2] h2 by (simp add: v u)
qed

section \<open>Properties of the fee buffer\<close>

lemma ndigits_pos: "0 < ndigits n"
  by (induction n rule: ndigits.induct) (simp add: ndigits.simps)

lemma ndigits_upper: "n < 10 ^ ndigits n"
proof (induction n rule: ndigits.induct)
  case (1 n)
  show ?case
  proof (cases "n < 10")
    case True
    then show ?thesis by (simp add: ndigits.simps)
  next
    case False
    with 1 have "n div 10 < 10 ^ ndigits (n div 10)" by simp
    then have "n < 10 * 10 ^ ndigits (n div 10)" by linarith
    with False show ?thesis by (simp add: ndigits.simps [of n])
  qed
qed

lemma ndigits_le: "n < 10 ^ k \<Longrightarrow> 0 < k \<Longrightarrow> ndigits n \<le> k"
proof (induction n arbitrary: k rule: ndigits.induct)
  case (1 n)
  show ?case
  proof (cases "n < 10")
    case True
    with 1(3) show ?thesis by (simp add: ndigits.simps)
  next
    case False
    obtain j where k: "k = Suc j" using 1(3) by (cases k) auto
    from False 1(2) k have "0 < j" by (cases j) auto
    moreover from 1(2) k have "n div 10 < 10 ^ j" by simp
    ultimately have "ndigits (n div 10) \<le> j" using 1(1) False by simp
    with False k show ?thesis by (simp add: ndigits.simps [of n])
  qed
qed


lemma round_half_even_exact: "c mod 10 ^ k = 0 \<Longrightarrow> round_half_even c k = c div 10 ^ k"
  by (simp add: round_half_even_def)

lemma dec_fix_times_exact:
  assumes m: "0 < m" and z: "m mod 10 ^ 5 = 0" and b: "m < 10 ^ 33"
  shows "\<exists>d. dec_fix 28 (m, - 2) = Inr d \<and> int_of_decimal d = m div 100"
proof (cases "ndigits m \<le> 28")
  case True
  then have "dec_fix 28 (m, - 2) = Inr (m, - 2)" using m by (simp add: dec_fix_def Let_def)
  moreover have "int_of_decimal (m, - 2) = m div 100" using m by (simp add: int_of_decimal_def)
  ultimately show ?thesis by simp
next
  case False
  define k where "k = ndigits m - 28"
  have n33: "ndigits m \<le> 33" using b by (simp add: ndigits_le)
  have k: "0 < k" "k \<le> 5" "ndigits m = k + 28" using False n33 by (simp_all add: k_def)
  have dv: "(10::int) ^ k dvd 10 ^ 5" using k(2) by (rule le_imp_power_dvd)
  have "(10::int) ^ 5 dvd m" using z by (simp add: dvd_eq_mod_eq_0)
  with dv have dk: "(10::int) ^ k dvd m" by (rule dvd_trans)
  then have mk: "m mod 10 ^ k = 0" by (simp add: dvd_eq_mod_eq_0)
  define q where "q = m div 10 ^ k"
  have mq: "m = q * 10 ^ k" using dk by (simp add: q_def)
  have r: "round_half_even m k = q" using mk by (simp add: round_half_even_exact q_def)
  have "m < 10 ^ (k + 28)" using ndigits_upper [of m] k(3) by simp
  then have "q * 10 ^ k < 10 ^ 28 * 10 ^ k" using mq by (simp add: power_add mult.commute)
  then have q28: "q < 10 ^ 28" by simp
  have q0: "0 < q"
  proof (rule ccontr)
    assume "\<not> 0 < q"
    then have "q \<le> 0" by simp
    moreover have "(0::int) \<le> 10 ^ k" by simp
    ultimately have "q * 10 ^ k \<le> 0" by (rule mult_nonpos_nonneg)
    with m mq show False by simp
  qed
  have fx: "dec_fix 28 (m, - 2) = Inr (q, - 2 + int k)"
    using m k q28 q0 r by (simp add: dec_fix_def Let_def)
  have "int_of_decimal (q, - 2 + int k) = m div 100"
  proof (cases "k = 1")
    case True
    then have "m = q * 10" using mq by simp
    then show ?thesis using True q0 by (simp add: int_of_decimal_def)
  next
    case False
    with k(1) have "2 \<le> k" by simp
    then obtain j where j: "k = j + 2" by (metis le_add_diff_inverse2)
    then have "m = (q * 10 ^ j) * 100" using mq by (simp add: power_add)
    then have "m div 100 = q * 10 ^ j" by simp
    then show ?thesis using j by (simp add: int_of_decimal_def)
  qed
  with fx show ?thesis by simp
qed

lemma fee_buffer_exact:
  assumes "0 \<le> g" "g * 37500000 < 10 ^ 33"
  shows "fee_buffer g = Inr (g * 375000)"
proof (cases "g = 0")
  case True
  then show ?thesis by (simp add: fee_buffer_def dec_mul_def dec_fix_def int_of_decimal_def)
next
  case False
  let ?m = "g * 37500000"
  have p: "0 < ?m" using assms(1) False by simp
  have z: "?m mod 10 ^ 5 = 0" by simp
  from dec_fix_times_exact [OF p z assms(2)]
  obtain d where d: "dec_fix 28 (?m, - 2) = Inr d" "int_of_decimal d = ?m div 100" by blast
  have "?m div 100 = g * 375000" by simp
  with d have "int_of_decimal d = g * 375000" by simp
  moreover have "dec_mul (g * 300000, 0) (125, - 2) = Inr d"
    using d(1) by (simp add: dec_mul_def mult.commute)
  ultimately show ?thesis by (simp add: fee_buffer_def)
qed

text \<open>
  Claim C4, as amended. For every gas price \<open>g \<ge> 0\<close> with \<open>g * 37500000 < 10 ^ 33\<close> (every
  \<open>g\<close> up to 26666666666666666666666666) and every balance \<open>b \<ge> 0\<close>, the fee buffer is
  \<open>ceil(g * 300000 * 1.25)\<close> and the maximum sendable amount is \<open>max (b - feeBuffer) 0\<close>.
\<close>

theorem fee_buffer_max_send:
  assumes "0 \<le> g" and "g * 37500000 < 10 ^ 33" and "0 \<le> b"
  shows "fee_buffer g = Inr \<lceil>real_of_int g * 300000 * 1.25\<rceil>
    \<and> max_send_of b g = Inr (max (b - \<lceil>real_of_int g * 300000 * 1.25\<rceil>) 0)"
proof -
  have "real_of_int g * 300000 * 1.25 = real_of_int (g * 375000)" by simp
  then have c: "\<lceil>real_of_int g * 300000 * 1.25\<rceil> = g * 375000" by (simp only: ceiling_of_int)
  show ?thesis
    unfolding c using fee_buffer_exact [OF assms(1,2)] by (simp add: max_send_of_def max_def)
qed

theorem fee_buffer_max_send_witness:
  "fee_buffer 5000000000 = Inr 1875000000000000
   \<and> max_send_of 1000000000000000000 5000000000 = Inr 998125000000000000"
  using fee_buffer_max_send [of 5000000000 1000000000000000000] by simp

text \<open>
  Claim C4 as stated fails for a large gas price: the product is rounded to the 28
  significant digits of the decimal context before it is truncated. At
  \<open>g = 10 ^ 26 + 1\<close> the module computes 37500000000000000000000000380000, not
  37500000000000000000000000375000.
\<close>

theorem fee_buffer_counterexample:
  "fee_buffer 100000000000000000000000001
     \<noteq> Inr \<lceil>real_of_int 100000000000000000000000001 * 300000 * 1.25\<rceil>"
proof -
  have "fee_buffer 100000000000000000000000001 = Inr 37500000000000000000000000380000"
    by code_simp
  moreover have "real_of_int 100000000000000000000000001 * 300000 * 1.25
      = real_of_int 37500000000000000000000000375000" by simp
  then have "\<lceil>real_of_int 100000000000000000000000001 * 300000 * 1.25\<rceil>
      = 37500000000000000000000000375000" by (simp only: ceiling_of_int)
  ultimately show ?thesis by simp
qed

section \<open>Properties of the gas limit\<close>

lemma bit_length_upper: "n < 2 ^ bit_length n"
proof (induction n rule: bit_length.induct)
  case (1 n)
  show ?case
  proof (cases "n \<le> 0")
    case True
    then show ?thesis by (simp add: bit_length.simps)
  next
    case False
    with 1 have "n div 2 < 2 ^ bit_length (n div 2)" by simp
    then have "n < 2 * 2 ^ bit_length (n div 2)" by linarith
    with False show ?thesis by (simp add: bit_length.simps [of n])
  qed
qed

lemma bit_length_le: "n < 2 ^ k \<Longrightarrow> bit_length n \<le> k"
proof (induction n arbitrary: k rule: bit_length.induct)
  case (1 n)
  show ?case
  proof (cases "n \<le> 0")
    case True
    then show ?thesis by (simp add: bit_length.simps)
  next
    case False
    with 1(2) have "k \<noteq> 0" by (cases k) auto
    then obtain j where k: "k = Suc j" by (cases k) auto
    from 1(2) k have "n div 2 < 2 ^ j" by simp
    then have "bit_length (n div 2) \<le> j" using 1(1) False by simp
    with False k show ?thesis by (simp add: bit_length.simps [of n])
  qed
qed

lemma bit_length_gt: "2 ^ k \<le> n \<Longrightarrow> k < bit_length n"
proof (rule ccontr)
  assume a: "2 ^ k \<le> n" and "\<not> k < bit_length n"
  then have "bit_length n \<le> k" by simp
  then have "(2::int) ^ bit_length n \<le> 2 ^ k" by (rule power_increasing) simp
  with bit_length_upper [of n] a show False by linarith
qed

lemma bit_length_lower: "0 < n \<Longrightarrow> 2 ^ (bit_length n - 1) \<le> n"
proof (induction n rule: bit_length.induct)
  case (1 n)
  show ?case
  proof (cases "n div 2 \<le> 0")
    case True
    with 1(2) have "n = 1" by linarith
    then show ?thesis by (simp add: bit_length.simps [of 1] bit_length.simps [of 0])
  next
    case False
    then have pos: "0 < n div 2" by simp
    with 1 have ih: "2 ^ (bit_length (n div 2) - 1) \<le> n div 2" by simp
    have bl: "0 < bit_length (n div 2)" using pos by (simp add: bit_length.simps [of "n div 2"])
    have "bit_length n = Suc (bit_length (n div 2))" using 1(2) by (simp add: bit_length.simps [of n])
    then have "bit_length n - 1 = Suc (bit_length (n div 2) - 1)" using bl by simp
    then have "(2::int) ^ (bit_length n - 1) = 2 * 2 ^ (bit_length (n div 2) - 1)" by simp
    also have "\<dots> \<le> 2 * (n div 2)" using ih by simp
    also have "\<dots> \<le> n" by linarith
    finally show ?thesis .
  qed
qed

lemma round_half_even2_upper:
  assumes "0 < s"
  shows "round_half_even2 p s * 2 ^ s \<le> p + 2 ^ (s - 1)"
proof -
  define H :: int where "H = 2 ^ (s - 1)"
  have s: "(2::int) ^ s = 2 * H" using assms by (cases s) (simp_all add: H_def)
  define q r where "q = p div (2 * H)" and "r = p mod (2 * H)"
  have p: "p = q * (2 * H) + r" unfolding q_def r_def by (rule div_mult_mod_eq [symmetric])
  have H: "0 < H" by (simp add: H_def)
  have r: "0 \<le> r" "r < 2 * H" using H by (simp_all add: r_def)
  have "round_half_even2 p s = q \<or> (round_half_even2 p s = q + 1 \<and> H \<le> r)"
    by (auto simp: round_half_even2_def s Let_def q_def r_def)
  then show ?thesis
    unfolding s H_def [symmetric] using p r by (auto simp: algebra_simps)
qed

lemma round_half_even2_lower:
  assumes "0 < s"
  shows "p \<le> round_half_even2 p s * 2 ^ s + 2 ^ (s - 1)"
proof -
  define H :: int where "H = 2 ^ (s - 1)"
  have s: "(2::int) ^ s = 2 * H" using assms by (cases s) (simp_all add: H_def)
  define q r where "q = p div (2 * H)" and "r = p mod (2 * H)"
  have p: "p = q * (2 * H) + r" unfolding q_def r_def by (rule div_mult_mod_eq [symmetric])
  have H: "0 < H" by (simp add: H_def)
  have r: "0 \<le> r" "r < 2 * H" using H by (simp_all add: r_def)
  have "round_half_even2 p s = q + 1 \<or> (round_half_even2 p s = q \<and> r \<le> H)"
    by (auto simp: round_half_even2_def s Let_def q_def r_def)
  then show ?thesis
    unfolding s H_def [symmetric] using p r by (auto simp: algebra_simps)
qed


lemma div_between:
  fixes m n K :: int
  assumes "n * K \<le> m" "m < (n + 1) * K"
  shows "m div K = n"
proof -
  have "m = K * n + (m - n * K)" by (simp add: algebra_simps)
  moreover have "0 \<le> m - n * K" using assms(1) by simp
  moreover have "m - n * K < K" using assms(2) by (simp add: algebra_simps)
  ultimately show ?thesis by (rule int_div_pos_eq)
qed

lemma scaled_gas_core:
  fixes e :: int and s :: nat
  assumes e: "0 \<le> e" and s: "0 < s" "s \<le> 51"
    and pl: "e * 5404319552844595 < 2 ^ (s + 53)"
    and pu: "2 ^ (s + 52) \<le> e * 5404319552844595"
  shows "round_half_even2 (e * 5404319552844595) s div 2 ^ (52 - s) = 6 * e div 5"
proof -
  define p where "p = e * 5404319552844595"
  define m where "m = round_half_even2 p s"
  define H :: int where "H = 2 ^ (s - 1)"
  define K :: int where "K = 2 ^ (52 - s)"
  define n t where "n = 6 * e div 5" and "t = 6 * e mod 5"
  have s2: "(2::int) ^ s = 2 * H" using s(1) by (cases s) (simp_all add: H_def)
  have H: "0 < H" by (simp add: H_def)
  have K: "0 < K" by (simp add: K_def)
  have "(2::int) ^ (s - 1) \<le> 2 ^ 50" using s(2) by (intro power_increasing) simp_all
  then have H50: "H \<le> 1125899906842624" by (simp add: H_def)
  have "(2::int) ^ (s + 52) = 2 ^ s * 2 ^ 52" by (rule power_add)
  then have eH: "2 * H * 4503599627370496 \<le> e * 5404319552844595" using pu by (simp add: s2)
  have "K * 2 ^ s = 2 ^ ((52 - s) + s)" unfolding K_def by (rule power_add [symmetric])
  then have KH: "K * (2 * H) = 4503599627370496" using s(2) by (simp add: s2)
  have "(2::int) ^ (s + 53) = 2 ^ s * 2 ^ 53" by (rule power_add)
  then have "e * 5404319552844595 < 2 * H * 9007199254740992" using pl by (simp add: s2)
  moreover have "e * 4503599627370496 \<le> e * 5404319552844595" using e by (intro mult_left_mono) simp_all
  ultimately have e4: "e < 4 * H" by linarith
  have p5: "5 * p = 6 * e * 4503599627370496 - e" by (simp add: p_def)
  have nt: "6 * e = 5 * n + t" "0 \<le> t" "t \<le> 4"
    unfolding n_def t_def by (simp_all add: mult_div_mod_eq)
  define X where "X = m * (2 * H)"
  have u: "X \<le> p + H"
    using round_half_even2_upper [OF s(1), of p] by (simp add: X_def m_def s2 H_def)
  have l: "p \<le> X + H"
    using round_half_even2_lower [OF s(1), of p] by (simp add: X_def m_def s2 H_def)
  have a1: "((n + 1) * K) * (2 * H) = (n + 1) * 4503599627370496"
    by (simp only: mult.assoc KH)
  have a2: "(n * K - 1) * (2 * H) = n * 4503599627370496 - 2 * H"
    using KH by (simp add: algebra_simps)
  have "X < (n + 1) * 4503599627370496"
    using u p5 nt e H50 eH by simp
  then have "m * (2 * H) < ((n + 1) * K) * (2 * H)"
    by (simp only: a1 X_def)
  then have up: "m < (n + 1) * K" using H by (simp only: mult_less_cancel_right_pos)
  have "n * 4503599627370496 - 2 * H < X"
    using l p5 nt e4 H by simp
  then have "(n * K - 1) * (2 * H) < m * (2 * H)"
    by (simp only: a2 X_def)
  then have "n * K - 1 < m" using H by (simp only: mult_less_cancel_right_pos)
  then have lo: "n * K \<le> m" by simp
  from lo up have "m div K = n" by (rule div_between)
  then show ?thesis by (simp add: m_def p_def K_def n_def)
qed


lemma scaled_gas_floor:
  assumes "0 \<le> e" "e \<le> 3752999689475413"
  shows "scaled_gas e = Some (6 * e div 5)"
proof -
  consider "e = 0" | "e = 1" | "2 \<le> e" using assms(1) by linarith
  then show ?thesis
  proof cases
    case 1
    have "scaled_gas 0 = Some 0" by code_simp
    with 1 show ?thesis by simp
  next
    case 2
    have "scaled_gas 1 = Some 1" by code_simp
    with 2 show ?thesis by simp
  next
    case 3
    define p where "p = e * 5404319552844595"
    define s where "s = bit_length p - 53"
    define m where "m = round_half_even2 p s"
    have "e < 2 ^ 53" using assms(2) by simp
    then have be: "bit_length e \<le> 53" by (rule bit_length_le)
    then have f1: "float_of_int e = Some (e, 0)"
      by (simp add: float_of_int_def round53_def)
    have ae: "\<bar>e\<bar> = e" "sgn e = 1" using 3 by simp_all
    have "(2::int) ^ 53 \<le> p" using 3 by (simp add: p_def)
    then have L1: "53 < bit_length p" by (rule bit_length_gt)
    have "e * 5404319552844595 \<le> 3752999689475413 * 5404319552844595"
      using assms(2) by (intro mult_right_mono) simp_all
    then have p104: "p < 2 ^ 104" by (simp add: p_def)
    then have L2: "bit_length p \<le> 104" by (rule bit_length_le)
    have s: "0 < s" "s \<le> 51" "s + 53 = bit_length p" using L1 L2 by (simp_all add: s_def)
    have "0 < p" using 3 by (simp add: p_def)
    then have "2 ^ (bit_length p - 1) \<le> p" by (rule bit_length_lower)
    moreover have "bit_length p - 1 = s + 52" using s(3) by simp
    ultimately have pu: "2 ^ (s + 52) \<le> e * 5404319552844595" by (simp add: p_def)
    have pl: "e * 5404319552844595 < 2 ^ (s + 53)"
      using bit_length_upper [of p] by (simp add: s(3) p_def)
    have core: "m div 2 ^ (52 - s) = 6 * e div 5"
      unfolding m_def p_def using assms(1) s(1,2) pl pu by (rule scaled_gas_core)
    have "m * 2 ^ s \<le> p + 2 ^ (s - 1)" unfolding m_def using s(1) by (rule round_half_even2_upper)
    moreover have "(2::int) ^ (s - 1) \<le> 2 ^ 50" using s(2) by (intro power_increasing) simp_all
    ultimately have ms: "m * 2 ^ s < 2 ^ 105" using p104 by simp
    have "m < 2 ^ 105"
    proof (cases "0 \<le> m")
      case True
      have "(1::int) \<le> 2 ^ s" by simp
      with True have "m * 1 \<le> m * 2 ^ s" by (intro mult_left_mono)
      with ms show ?thesis by simp
    next
      case False
      then show ?thesis by simp
    qed
    then have bm: "bit_length m \<le> 105" by (rule bit_length_le)
    have f2: "float_mul (e, 0) float_1_20 = Some (m, int s - 52)"
      using L1 bm s(2) by (simp add: float_mul_def float_1_20_def round53_def Let_def
          p_def [symmetric] s_def [symmetric] m_def [symmetric])
    have "nat (52 - int s) = 52 - s" by simp
    then have f3: "int_of_float (m, int s - 52) = m div 2 ^ (52 - s)"
      using s(2) by (simp add: int_of_float_def)
    show ?thesis by (simp add: scaled_gas_def ae f1 f2 f3 core)
  qed
qed

lemma gas_limit_of_floor:
  assumes "0 \<le> e" and "e \<le> 3752999689475413"
  shows "gas_limit_of (Inr e) = \<lfloor>real_of_int e * 1.20\<rfloor>"
proof -
  have "real_of_int e * 1.20 = real_of_int (6 * e) / real_of_int 5" by simp
  then have "\<lfloor>real_of_int e * 1.20\<rfloor> = 6 * e div 5" by (simp only: floor_divide_of_int_eq)
  then show ?thesis using scaled_gas_floor [OF assms] by (simp add: gas_limit_of_def)
qed

text \<open>
  The bound is the last estimate whose product stays below \<open>2 ^ 52\<close>, where binary64
  numbers are spaced by one half. For the next estimate the product is rounded up to an
  integer before \<^verbatim>\<open>int()\<close> sees it.
\<close>

lemma gas_limit_floor_bound_tight:
  "gas_limit_of (Inr 3752999689475414) = 4503599627370497
   \<and> \<lfloor>real_of_int 3752999689475414 * 1.20\<rfloor> = 4503599627370496"
proof -
  have g: "gas_limit_of (Inr 3752999689475414) = 4503599627370497" by code_simp
  have "\<lfloor>real_of_int 3752999689475414 * 1.20\<rfloor>
      = \<lfloor>real_of_int 22517998136852484 / real_of_int 5\<rfloor>" by simp
  also have "\<dots> = 22517998136852484 div 5" by (simp only: floor_divide_of_int_eq)
  finally have "\<lfloor>real_of_int 3752999689475414 * 1.20\<rfloor> = 4503599627370496" by simp
  with g show ?thesis by simp
qed

text \<open>
  The calls of \<^verbatim>\<open>_send_native_deposit\<close> when the address, the gas price and the nonce are
  obtained: the transaction it broadcasts carries the gas limit computed from the answer
  to the gas estimation.
\<close>

lemma send_native_deposit_calls:
  assumes "w_to_checksum_address w b = Inr bridge"
    and "w_gas_price w (calls m) = Inr gp"
    and "w_nonce w (calls m @ [GasPrice, EstimateGas bridge c v]) = Inr n"
  shows "new_calls m (snd (send_native_deposit w b chain c v m)) =
    [GasPrice, EstimateGas bridge c v, GetTransactionCount,
     SendTransaction \<lparr>tx_to = bridge, tx_commitment = c, tx_value = v, tx_nonce = n,
       tx_chain_id = chain,
       tx_gas = gas_limit_of (w_estimate_gas w (calls m @ [GasPrice]) bridge c v),
       tx_gas_price = gp\<rparr>]"
  using assms
  by (simp add: send_native_deposit_def bnd_def lift_def rpc_def estimate_def Let_def new_calls_def)

text \<open>
  Claim C5, as amended. In every run of \<^verbatim>\<open>_send_native_deposit\<close> that reaches the broadcast
  (the address, the gas price and the nonce are obtained): when the gas estimation returns
  an integer \<open>e\<close> with \<open>0 \<le> e \<le> 3752999689475413\<close>, the gas limit of the broadcast
  transaction is \<open>floor(e * 1.20)\<close>, the product rounded down; when the estimation fails, it
  is 300000.
\<close>

theorem gas_limit_floor:
  assumes "w_to_checksum_address w b = Inr bridge"
    and "w_gas_price w (calls m) = Inr gp"
    and "w_nonce w (calls m @ [GasPrice, EstimateGas bridge c v]) = Inr n"
    and "0 \<le> e" and "e \<le> 3752999689475413"
  shows "(w_estimate_gas w (calls m @ [GasPrice]) bridge c v = Inr e \<longrightarrow>
            sent_gas (new_calls m (snd (send_native_deposit w b chain c v m)))
              = [\<lfloor>real_of_int e * 1.20\<rfloor>])
    \<and> (w_estimate_gas w (calls m @ [GasPrice]) bridge c v = Inl x \<longrightarrow>
            sent_gas (new_calls m (snd (send_native_deposit w b chain c v m))) = [300000])
    \<and> gas_limit_of (Inr e) = \<lfloor>real_of_int e * 1.20\<rfloor>
    \<and> gas_limit_of (Inl x) = 300000"
proof -
  note c = send_native_deposit_calls [OF assms(1,2,3), of chain]
  have f: "gas_limit_of (Inr e) = \<lfloor>real_of_int e * 1.20\<rfloor>"
    using assms(4,5) by (rule gas_limit_of_floor)
  have x: "gas_limit_of (Inl x) = 300000" by (simp add: gas_limit_of_def)
  show ?thesis
    by (simp add: c sent_gas_def f x)
qed

theorem gas_limit_floor_witness:
  "sent_gas (new_calls example_module
      (snd (send_native_deposit example_world (JStr ''0xBridge'') 204 42 1000 example_module)))
     = [25201]
   \<and> sent_gas (new_calls example_module
      (snd (send_native_deposit
              (example_world\<lparr>w_estimate_gas := (\<lambda>cs b c v. Inl (LibraryError ''execution reverted''))\<rparr>)
              (JStr ''0xBridge'') 204 42 1000 example_module)))
     = [300000]"
proof -
  define w2 where
    "w2 = example_world\<lparr>w_estimate_gas := (\<lambda>cs b c v. Inl (LibraryError ''execution reverted''))\<rparr>"
  have a1: "w_to_checksum_address example_world (JStr ''0xBridge'') = Inr ''0xBridge''"
    and a2: "w_gas_price example_world (calls example_module) = Inr 5000000000"
    and a3: "w_nonce example_world (calls example_module @ [GasPrice, EstimateGas ''0xBridge'' 42 1000]) = Inr 7"
    and a4: "w_estimate_gas example_world (calls example_module @ [GasPrice]) ''0xBridge'' 42 1000 = Inr 21001"
    by (simp_all add: example_world_def)
  have b1: "w_to_checksum_address w2 (JStr ''0xBridge'') = Inr ''0xBridge''"
    and b2: "w_gas_price w2 (calls example_module) = Inr 5000000000"
    and b3: "w_nonce w2 (calls example_module @ [GasPrice, EstimateGas ''0xBridge'' 42 1000]) = Inr 7"
    and b4: "w_estimate_gas w2 (calls example_module @ [GasPrice]) ''0xBridge'' 42 1000
        = Inl (LibraryError ''execution reverted'')"
    by (simp_all add: w2_def example_world_def)
  have r: "(0::int) \<le> 21001" "(21001::int) \<le> 3752999689475413" by simp_all
  have "\<lfloor>real_of_int 21001 * 1.20\<rfloor> = \<lfloor>real_of_int 126006 / real_of_int 5\<rfloor>" by simp
  also have "\<dots> = 126006 div 5" by (simp only: floor_divide_of_int_eq)
  finally have fl: "\<lfloor>real_of_int 21001 * 1.20\<rfloor> = 25201" by simp
  from gas_limit_floor [OF a1 a2 a3 r, where chain = 204] a4 fl
  have 1: "sent_gas (new_calls example_module
      (snd (send_native_deposit example_world (JStr ''0xBridge'') 204 42 1000 example_module)))
     = [25201]" by simp
  from gas_limit_floor [OF b1 b2 b3 r, where chain = 204 and x = "LibraryError ''execution reverted''"] b4
  have 2: "sent_gas (new_calls example_module
      (snd (send_native_deposit w2 (JStr ''0xBridge'') 204 42 1000 example_module)))
     = [300000]" by simp
  from 1 2 show ?thesis unfolding w2_def by simp
qed

text \<open>
  Claim C5 as stated fails wherever \<open>e * 1.20\<close> is not an integer: \<^verbatim>\<open>int()\<close> truncates. For
  the estimate 21001 the gas limit is 25201, while \<open>ceil(21001 * 1.20) = 25202\<close>.
\<close>

theorem gas_limit_ceiling_counterexample:
  "gas_limit_of (Inr 21001) \<noteq> \<lceil>real_of_int 21001 * 1.20\<rceil>"
proof -
  have g: "gas_limit_of (Inr 21001) = 25201" by code_simp
  have "\<lceil>real_of_int 21001 * 1.20\<rceil> = \<lceil>real_of_int 126006 / real_of_int 5\<rceil>" by simp
  also have "\<dots> = - ((- 126006) div 5)" by (simp only: ceiling_divide_eq_div of_int_minus [symmetric]) 
  finally have "\<lceil>real_of_int 21001 * 1.20\<rceil> = 25202" by simp
  with g show ?thesis by simp
qed

section \<open>Properties of the amount conversions\<close>

















section \<open>Properties of the workflow\<close>

lemma extends_refl: "extends P m m"
  by (simp add: extends_def new_calls_def)

lemma extends_append:
  "calls m' = calls m @ new \<Longrightarrow> list_all P new \<Longrightarrow> extends P m m'"
  by (simp add: extends_def new_calls_def)

lemma extends_appendD:
  assumes "extends P m m'"
  shows "calls m' = calls m @ new_calls m m'"
  using assms by (metis append_take_drop_id extends_def new_calls_def)

lemma extends_trans:
  assumes "extends P m m1" "extends P m1 m2"
  shows "extends P m m2"
proof -
  have a: "calls m1 = calls m @ new_calls m m1" using assms(1) by (rule extends_appendD)
  have b: "calls m2 = calls m1 @ new_calls m1 m2" using assms(2) by (rule extends_appendD)
  have "calls m2 = calls m @ (new_calls m m1 @ new_calls m1 m2)" using a b by simp
  moreover have "list_all P (new_calls m m1 @ new_calls m1 m2)"
    using assms by (simp add: extends_def)
  ultimately show ?thesis by (rule extends_append)
qed

lemma ret_extends: "extends P m (snd (ret x m))"
  by (simp add: ret_def extends_refl)

lemma raise_extends: "extends P m (snd (raise e m))"
  by (simp add: raise_def extends_refl)

lemma lift_extends: "extends P m (snd (lift r m))"
  by (simp add: lift_def extends_refl)

lemma bnd_extends:
  assumes "\<And>m. extends P m (snd (f m))" "\<And>x m. extends P m (snd (g x m))"
  shows "extends P m (snd (bnd f g m))"
proof (cases "f m")
  case (Pair r m1)
  have f: "extends P m m1" using assms(1) [of m] Pair by simp
  show ?thesis
  proof (cases r)
    case (Inl e)
    then show ?thesis using Pair f by (simp add: bnd_def)
  next
    case (Inr x)
    have "extends P m1 (snd (g x m1))" by (rule assms(2))
    with f have "extends P m (snd (g x m1))" by (rule extends_trans)
    then show ?thesis using Pair Inr by (simp add: bnd_def)
  qed
qed

lemma rpc_extends: "P c \<Longrightarrow> extends P m (snd (rpc c answer m))"
  by (simp add: rpc_def extends_def new_calls_def)

lemma http_extends:
  assumes "\<And>b a. P (Http \<lparr>req_method = method, req_path = path, req_json = b, req_authorization = a\<rparr>)"
  shows "extends P m (snd (http w method path body jwt m))"
  using assms
  by (auto simp: http_def Let_def extends_def new_calls_def split: sum.splits option.splits)

lemma fetch_jwt_extends: "extends route_call m (snd (fetch_jwt w m))"
  unfolding fetch_jwt_def
  by (intro bnd_extends http_extends lift_extends)
     (auto simp: route_call_def raise_def extends_def new_calls_def)

lemma get_jwt_extends: "extends route_call m (snd (get_jwt w m))"
  by (auto simp: get_jwt_def fetch_jwt_extends extends_refl split: option.splits)

lemma fetch_configs_extends: "extends route_call m (snd (fetch_configs w m))"
  unfolding fetch_configs_def
  by (intro bnd_extends http_extends) (auto simp: route_call_def extends_def new_calls_def)

lemma get_configs_extends: "extends route_call m (snd (get_configs w m))"
  by (auto simp: get_configs_def fetch_configs_extends extends_refl split: option.splits)

lemma load_route_extends: "extends route_call m (snd (load_route w m))"
  unfolding load_route_def
  by (intro bnd_extends get_jwt_extends get_configs_extends lift_extends)
     (auto intro!: bnd_extends lift_extends raise_extends ret_extends rpc_extends
        simp: route_call_def)


lemma route_call_not_quote: "route_call c \<Longrightarrow> \<not> is_quote_request c"
  by (auto simp: route_call_def is_quote_request_def auth_path_def configs_path_def quote_path_def
      split: call.splits)

lemma extends_no_quote:
  assumes "extends route_call m m'"
  shows "filter is_quote_request (new_calls m m') = []"
proof -
  have "list_all route_call (new_calls m m')" using assms by (simp add: extends_def)
  then show ?thesis by (auto simp: filter_empty_conv list_all_iff route_call_not_quote)
qed

lemma swap_steps_nonpositive:
  assumes "a \<le> 0"
  shows "swap_steps w (Some a) m =
    (case load_route w m of
       (Inl e, m') \<Rightarrow> (Inl e, m')
     | (Inr r, m') \<Rightarrow> (Inl (RuntimeError ''Amount must be > 0 (or None for max balance).''), m'))"
  using assms
  by (simp add: swap_steps_def resolve_amount_def bnd_def raise_def split: prod.splits sum.splits)

text \<open>
  Claim C3, as amended. For every explicitly requested amount that is \<open>\<le> 0\<close>, the workflow
  fails, and the only calls it makes are those of the first part: the authentication
  request, the config request and the read of the chain id. It sends no quote or commit
  request, reads no balance, gas price or nonce, and broadcasts nothing. When the first
  part succeeds, the failure is the precondition error of the amount.
\<close>

theorem nonpositive_amount_fails:
  assumes "a \<le> 0"
  shows "process_swap w (Some a) m =
      (case load_route w m of
         (Inl e, m') \<Rightarrow> ((False, exn_str e), m')
       | (Inr r, m') \<Rightarrow> ((False, ''Amount must be > 0 (or None for max balance).''), m'))
    \<and> fst (fst (process_swap w (Some a) m)) = False
    \<and> extends route_call m (snd (process_swap w (Some a) m))"
proof -
  have s: "snd (process_swap w (Some a) m) = snd (load_route w m)"
    by (simp add: process_swap_def swap_steps_nonpositive [OF assms] split: prod.splits sum.splits)
  have "extends route_call m (snd (load_route w m))" by (rule load_route_extends)
  then show ?thesis
    unfolding s
    by (simp add: process_swap_def swap_steps_nonpositive [OF assms] split: prod.splits sum.splits)
qed

theorem nonpositive_amount_fails_witness:
  "(- 1 :: rat) \<le> 0
   \<and> fst (fst (process_swap example_world (Some (- 1)) example_module)) = False
   \<and> extends route_call example_module (snd (process_swap example_world (Some (- 1)) example_module))"
proof -
  have h: "(- 1 :: rat) \<le> 0" by simp
  from nonpositive_amount_fails [OF h, of example_world example_module] h
  show ?thesis by blast
qed

text \<open>
  Claim C3 as stated fails: the amount is checked after the authentication and the config
  fetch. With the amount \<open>- 1\<close> in a world that answers every request, the workflow fails
  with the precondition error after two requests to the bridge API.
\<close>

theorem nonpositive_amount_counterexample:
  "fst (process_swap example_world (Some (- 1)) example_module)
     = (False, ''Amount must be > 0 (or None for max balance).'')
   \<and> new_calls example_module (snd (process_swap example_world (Some (- 1)) example_module))
     = [Http \<lparr>req_method = ''POST'', req_path = ''/authentication/auth/apiKey'',
               req_json = Some (JObj [(''apiKey'', JStr ''K'')]), req_authorization = None\<rparr>,
        Http \<lparr>req_method = ''GET'', req_path = ''/bridge/configs'',
               req_json = None, req_authorization = None\<rparr>]"
  by code_simp

text \<open>
  Claim C7. When the authentication has succeeded and the fetched route config is a dict
  with no entry for the source chain, the workflow fails with an error that names the
  keys of the config in sorted order, and no quote request has been sent.
\<close>

theorem missing_chain_fails:
  assumes "get_jwt w m = (Inr jwt, m1)"
    and "get_configs w m1 = (Inr (JObj kv), m2)"
    and "chain_in \<notin> set (map fst kv)"
  shows "process_swap w amount m =
      ((False, ''chainIn 'OPBNB' not found in configs. Available: '' @ join '', '' (sort (map fst kv))), m2)
    \<and> filter is_quote_request (new_calls m m2) = []"
proof -
  have "extends route_call m m1" using get_jwt_extends [of m w] assms(1) by simp
  moreover have "extends route_call m1 m2" using get_configs_extends [of m1 w] assms(2) by simp
  ultimately have "extends route_call m m2" by (rule extends_trans)
  then have q: "filter is_quote_request (new_calls m m2) = []" by (rule extends_no_quote)
  have "load_route w m =
      (Inl (RuntimeError (''chainIn 'OPBNB' not found in configs. Available: ''
         @ join '', '' (sort (map fst kv)))), m2)"
    using assms
    by (simp add: load_route_def bnd_def lift_def raise_def py_in_def dict_keys_def)
  then show ?thesis using q by (simp add: process_swap_def swap_steps_def bnd_def)
qed


theorem missing_chain_fails_witness:
  "fst (process_swap
          (world_with_http (JObj [(''token'', JStr ''T'')]) (JObj [(''BSC'', JNull), (''ARB'', JNull)]))
          None example_module)
     = (False, ''chainIn 'OPBNB' not found in configs. Available: ARB, BSC'')"
proof -
  define w where "w = world_with_http (JObj [(''token'', JStr ''T'')]) (JObj [(''BSC'', JNull), (''ARB'', JNull)])"
  define m1 where "m1 = snd (get_jwt w example_module)"
  define m2 where "m2 = snd (get_configs w m1)"
  have a: "get_jwt w example_module = (Inr (JStr ''T''), m1)"
    unfolding m1_def w_def by code_simp
  have b: "get_configs w m1 = (Inr (JObj [(''BSC'', JNull), (''ARB'', JNull)]), m2)"
    unfolding m2_def m1_def w_def by code_simp
  have c: "chain_in \<notin> set (map fst [(''BSC'', JNull), (''ARB'', JNull)])"
    by (simp add: chain_in_def)
  have j: "join '', '' (sort (map fst [(''BSC'', JNull), (''ARB'', JNull)])) = ''ARB, BSC''"
    by code_simp
  from missing_chain_fails [OF a b c, of None]
  show ?thesis unfolding w_def [symmetric] by (simp add: j)
qed

lemma extract_jwt_first_truthy:
  "extract_jwt (JObj kv) =
     Inr (case first_truthy kv jwt_fields of
            Some j \<Rightarrow> j
          | None \<Rightarrow> (case map_of kv ''authorization'' of None \<Rightarrow> JNull | Some v \<Rightarrow> v))"
  by (simp add: extract_jwt_def jwt_fields_def first_truthy_def dict_get_def split: option.splits)

lemma first_truthy_truthy: "first_truthy kv jwt_fields = Some j \<Longrightarrow> truthy j"
  by (auto simp: jwt_fields_def first_truthy_def split: option.splits if_splits)

lemma first_truthy_none:
  "first_truthy kv jwt_fields = None \<Longrightarrow>
   \<not> truthy (case map_of kv ''authorization'' of None \<Rightarrow> JNull | Some v \<Rightarrow> v)"
  by (auto simp: jwt_fields_def first_truthy_def split: option.splits if_splits)

text \<open>
  Claim C8, as amended. For every authentication response that is a dict, the bearer
  token is the value of the first candidate field, in the order \<open>token\<close>, \<open>jwt\<close>,
  \<open>accessToken\<close>, \<open>authorization\<close>, whose value is true (not null, not empty); if no
  candidate has such a value, the workflow fails with the error of the missing token and
  no quote request is sent.
\<close>

theorem jwt_first_truthy:
  assumes "m_jwt m = None"
    and "http w ''POST'' auth_path (Some (JObj [(''apiKey'', JStr (api_key m))])) None m
           = (Inr (JObj kv), m1)"
  shows "(case first_truthy kv jwt_fields of
            Some j \<Rightarrow> get_jwt w m = (Inr j, m1\<lparr>m_jwt := Some j\<rparr>)
          | None \<Rightarrow>
              process_swap w amount m
                = ((False, ''Can't find JWT in response: '' @ py_str w (JObj kv)), m1)
              \<and> filter is_quote_request (new_calls m m1) = [])"
proof (cases "first_truthy kv jwt_fields")
  case None
  have x: "extract_jwt (JObj kv) = Inr (case map_of kv ''authorization'' of None \<Rightarrow> JNull | Some v \<Rightarrow> v)"
    by (simp add: extract_jwt_first_truthy None)
  have f: "fetch_jwt w m = (Inl (RuntimeError (''Can't find JWT in response: '' @ py_str w (JObj kv))), m1)"
    using assms(2) first_truthy_none [OF None]
    by (simp add: fetch_jwt_def bnd_def lift_def raise_def x)
  then have g: "get_jwt w m = (Inl (RuntimeError (''Can't find JWT in response: '' @ py_str w (JObj kv))), m1)"
    using assms(1) by (simp add: get_jwt_def)
  have "extends route_call m m1" using get_jwt_extends [of m w] g by simp
  then have q: "filter is_quote_request (new_calls m m1) = []" by (rule extends_no_quote)
  have "process_swap w amount m
      = ((False, ''Can't find JWT in response: '' @ py_str w (JObj kv)), m1)"
    by (simp add: process_swap_def swap_steps_def load_route_def bnd_def g)
  with q None show ?thesis by simp
next
  case (Some j)
  have x: "extract_jwt (JObj kv) = Inr j" by (simp add: extract_jwt_first_truthy Some)
  have "fetch_jwt w m = (Inr j, m1\<lparr>m_jwt := Some j\<rparr>)"
    using assms(2) first_truthy_truthy [OF Some]
    by (simp add: fetch_jwt_def bnd_def lift_def x)
  then show ?thesis using assms(1) Some by (simp add: get_jwt_def)
qed

theorem jwt_first_truthy_witness:
  "fst (get_jwt (world_with_http (JObj [(''token'', JStr []), (''jwt'', JStr ''J'')]) JNull) example_module)
     = Inr (JStr ''J'')
   \<and> fst (process_swap (world_with_http (JObj [(''token'', JStr []), (''expires'', JInt 60)]) JNull)
        None example_module)
     = (False, ''Can't find JWT in response: {...}'')"
proof -
  define w1 where "w1 = world_with_http (JObj [(''token'', JStr []), (''jwt'', JStr ''J'')]) JNull"
  define w2 where "w2 = world_with_http (JObj [(''token'', JStr []), (''expires'', JInt 60)]) JNull"
  define r where "r = JObj [(''apiKey'', JStr (api_key example_module))]"
  define n1 where "n1 = snd (http w1 ''POST'' auth_path (Some r) None example_module)"
  define n2 where "n2 = snd (http w2 ''POST'' auth_path (Some r) None example_module)"
  have c: "m_jwt example_module = None" by (simp add: example_module_def)
  have h1: "http w1 ''POST'' auth_path (Some r) None example_module
      = (Inr (JObj [(''token'', JStr []), (''jwt'', JStr ''J'')]), n1)"
    unfolding n1_def w1_def r_def by code_simp
  have h2: "http w2 ''POST'' auth_path (Some r) None example_module
      = (Inr (JObj [(''token'', JStr []), (''expires'', JInt 60)]), n2)"
    unfolding n2_def w2_def r_def by code_simp
  have t1: "first_truthy [(''token'', JStr []), (''jwt'', JStr ''J'')] jwt_fields = Some (JStr ''J'')"
    by code_simp
  have t2: "first_truthy [(''token'', JStr []), (''expires'', JInt 60)] jwt_fields = None"
    by code_simp
  have s: "py_str w2 (JObj [(''token'', JStr []), (''expires'', JInt 60)]) = ''{...}''"
    unfolding w2_def by code_simp
  from jwt_first_truthy [OF c h1 [unfolded r_def]] jwt_first_truthy [OF c h2 [unfolded r_def], of None]
  show ?thesis unfolding w1_def [symmetric] w2_def [symmetric] by (simp add: t1 t2 s)
qed

text \<open>
  Claim C8 as stated takes the first candidate that is present. For the response
  \<open>{"token": "", "jwt": "J"}\<close> the first present candidate is \<open>token\<close>, with the empty
  value, and the module takes \<open>J\<close>.
\<close>

theorem jwt_first_present_counterexample:
  "first_present [(''token'', JStr []), (''jwt'', JStr ''J'')] jwt_fields = Some (JStr [])
   \<and> fst (get_jwt (world_with_http (JObj [(''token'', JStr []), (''jwt'', JStr ''J'')]) JNull)
        example_module) = Inr (JStr ''J'')"
  by code_simp
















section \<open>Properties of the orchestrator\<close>

lemma safe_swap_unparseable:
  "w_from_key w key = Inl e \<Longrightarrow> safe_swap w cfg key amount sink = (Some e, sink)"
  by (simp add: safe_swap_def new_module_def)

lemma safe_swap_parseable:
  "w_from_key w key = Inr a \<Longrightarrow>
   fst (safe_swap w cfg key amount sink) = None
   \<and> length (snd (safe_swap w cfg key amount sink)) = Suc (length sink)"
  by (simp add: safe_swap_def new_module_def export_result_def Let_def split: prod.splits)

lemma run_in_order_step:
  "run_in_order wo cfg (k # ks) sink =
     (case w_from_key (wo k) k of
        Inl e \<Rightarrow> (Some e, sink)
      | Inr a \<Rightarrow> run_in_order wo cfg ks (snd (safe_swap (wo k) cfg k None sink)))"
proof (cases "w_from_key (wo k) k")
  case (Inl e)
  then show ?thesis by (simp add: safe_swap_unparseable)
next
  case (Inr a)
  obtain r sink' where s: "safe_swap (wo k) cfg k None sink = (r, sink')"
    by (cases "safe_swap (wo k) cfg k None sink") auto
  with safe_swap_parseable [OF Inr, of cfg None sink] have "r = None" by simp
  with s Inr show ?thesis by simp
qed

text \<open>
  When the batch ends, by completion or by an exception, at most one record per finished
  task has been written, and the task that raised has written none.
\<close>

lemma run_in_order_bound:
  "length (snd (run_in_order wo cfg ks sink))
     + (case fst (run_in_order wo cfg ks sink) of None \<Rightarrow> 0 | Some e \<Rightarrow> 1)
   \<le> length sink + length ks"
proof (induction ks arbitrary: sink)
  case Nil
  then show ?case by simp
next
  case (Cons k ks)
  show ?case
  proof (cases "w_from_key (wo k) k")
    case (Inl e)
    then show ?thesis by (simp add: run_in_order_step del: run_in_order.simps)
  next
    case (Inr a)
    from safe_swap_parseable [OF Inr, of cfg None sink]
    have "length (snd (safe_swap (wo k) cfg k None sink)) = Suc (length sink)" by simp
    with Cons [of "snd (safe_swap (wo k) cfg k None sink)"] Inr
    show ?thesis by (simp add: run_in_order_step del: run_in_order.simps)
  qed
qed

lemma run_in_order_raises:
  "k \<in> set ks \<Longrightarrow> w_from_key (wo k) k = Inl e \<Longrightarrow> fst (run_in_order wo cfg ks sink) \<noteq> None"
proof (induction ks arbitrary: sink)
  case Nil
  then show ?case by simp
next
  case (Cons x xs)
  show ?case
  proof (cases "w_from_key (wo x) x")
    case (Inl e')
    then show ?thesis by (simp add: run_in_order_step del: run_in_order.simps)
  next
    case (Inr a)
    with Cons.prems have "x \<noteq> k" by auto
    with Cons.prems have "k \<in> set xs" by simp
    from Cons.IH [OF this Cons.prems(2)] Inr
    show ?thesis by (simp add: run_in_order_step del: run_in_order.simps)
  qed
qed

text \<open>
  When every private key parses, no task raises, and one record per wallet has been
  written when the batch completes, in whatever order the tasks finish.
\<close>

lemma run_in_order_all_parse:
  "list_all (\<lambda>k. parses (wo k) k) ks \<Longrightarrow>
   fst (run_in_order wo cfg ks sink) = None
   \<and> length (snd (run_in_order wo cfg ks sink)) = length sink + length ks"
proof (induction ks arbitrary: sink)
  case Nil
  then show ?case by simp
next
  case (Cons k ks)
  then obtain a where a: "w_from_key (wo k) k = Inr a"
    by (cases "w_from_key (wo k) k") (auto simp: parses_def)
  from safe_swap_parseable [OF a, of cfg None sink]
  have "length (snd (safe_swap (wo k) cfg k None sink)) = Suc (length sink)" by simp
  with Cons.IH [of "snd (safe_swap (wo k) cfg k None sink)"] Cons.prems a
  show ?case by (simp add: run_in_order_step del: run_in_order.simps)
qed

text \<open>
  Claim C2 against the code. A private key that cannot be parsed makes the constructor of
  the module raise; \<^verbatim>\<open>safe_swap\<close> constructs the module outside any handler, so the
  exception leaves the workflow and no failure outcome is written.
\<close>

theorem unparseable_key_escapes:
  "safe_swap example_world example_config ''bad'' None []
     = (Some (LibraryError ''Non-hexadecimal digit found''), [])"
proof -
  have "w_from_key example_world ''bad'' = Inl (LibraryError ''Non-hexadecimal digit found'')"
    by (simp add: example_world_def)
  then show ?thesis by (rule safe_swap_unparseable)
qed

text \<open>
  Claim C1 against the code. In every order in which the tasks of a batch can finish, a
  wallet whose private key cannot be parsed makes the batch end with an exception, and
  fewer records than wallets have been written when it does: the wallet that raised has
  no record.
\<close>

theorem batch_with_unparseable_key:
  assumes "sort order = [0..<length (wallets cfg)]"
    and "i < length (wallets cfg)"
    and "w_from_key (wo (wallets cfg ! i)) (wallets cfg ! i) = Inl e"
  shows "fst (process_swaps wo cfg order sink) \<noteq> None
    \<and> length (snd (process_swaps wo cfg order sink)) < length sink + length (wallets cfg)"
proof -
  define ks where "ks = map (\<lambda>i. wallets cfg ! i) order"
  have "set order = set (sort order)" by simp
  also have "\<dots> = {0..<length (wallets cfg)}" by (simp only: assms(1) set_upt)
  finally have "i \<in> set order" using assms(2) by simp
  then have k: "wallets cfg ! i \<in> set ks" by (simp add: ks_def)
  have "length order = length (sort order)" by simp
  also have "\<dots> = length (wallets cfg)" by (simp only: assms(1) length_upt) simp?
  finally have len: "length ks = length (wallets cfg)" by (simp add: ks_def)
  from run_in_order_raises [where wo = wo and cfg = cfg and sink = sink, OF k assms(3)]
  obtain x where x: "fst (run_in_order wo cfg ks sink) = Some x" by (cases "fst (run_in_order wo cfg ks sink)") auto
  with run_in_order_bound [of wo cfg ks sink]
  have "length (snd (run_in_order wo cfg ks sink)) < length sink + length ks" by simp
  with x len show ?thesis by (simp add: process_swaps_def ks_def)
qed

theorem batch_with_unparseable_key_witness:
  "process_swaps (\<lambda>k. example_world) example_config [0, 1] []
     = (Some (LibraryError ''Non-hexadecimal digit found''), [])
   \<and> fst (process_swaps (\<lambda>k. example_world) example_config [1, 0] []) \<noteq> None
   \<and> length (snd (process_swaps (\<lambda>k. example_world) example_config [1, 0] [])) < 2"
proof -
  have e: "process_swaps (\<lambda>k. example_world) example_config [0, 1] []
     = (Some (LibraryError ''Non-hexadecimal digit found''), [])" by code_simp
  have h1: "sort [1, 0 :: nat] = [0..<length (wallets example_config)]" by code_simp
  have h2: "0 < length (wallets example_config)" by (simp add: example_config_def)
  have h3: "w_from_key ((\<lambda>k. example_world) (wallets example_config ! 0)) (wallets example_config ! 0)
      = Inl (LibraryError ''Non-hexadecimal digit found'')"
    by (simp add: example_config_def example_world_def)
  have n: "length (wallets example_config) = 2" by (simp add: example_config_def)
  from batch_with_unparseable_key [of "[1, 0]" example_config 0 "\<lambda>k. example_world", OF h1 h2 h3, of "[]"]
  have "fst (process_swaps (\<lambda>k. example_world) example_config [1, 0] []) \<noteq> None
    \<and> length (snd (process_swaps (\<lambda>k. example_world) example_config [1, 0] [])) < 2"
    by (simp add: n)
  with e show ?thesis by blast
qed

section \<open>Properties of the semaphore\<close>

lemma count_filter_update:
  "i < length xs \<Longrightarrow>
   length (filter P (xs[i := y])) + (if P (xs ! i) then 1 else 0)
     = length (filter P xs) + (if P y then 1 else 0)"
proof (induction xs arbitrary: i)
  case Nil
  then show ?case by simp
next
  case (Cons x xs)
  then show ?case by (cases i) auto
qed

lemma step_invariant:
  assumes "step s e = Some s'"
  shows "holders s' + sem_value s' = holders s + sem_value s"
proof (cases e)
  case (Acquire i)
  with assms have c: "i < length (phases s)" "phases s ! i = Waiting" "0 < sem_value s"
    and s': "s' = s\<lparr>sem_value := sem_value s - 1, phases := (phases s)[i := Holding]\<rparr>"
    by (auto split: if_splits)
  from count_filter_update [OF c(1), of "\<lambda>p. p = Holding" Holding] c(2)
  have "length (filter (\<lambda>p. p = Holding) ((phases s)[i := Holding]))
      = Suc (length (filter (\<lambda>p. p = Holding) (phases s)))" by simp
  then show ?thesis using c(3) by (simp add: s' holders_def)
next
  case (Release i)
  with assms have c: "i < length (phases s)" "phases s ! i = Holding"
    and s': "s' = s\<lparr>sem_value := sem_value s + 1, phases := (phases s)[i := Finished]\<rparr>"
    by (auto split: if_splits)
  from count_filter_update [OF c(1), of "\<lambda>p. p = Holding" Finished] c(2)
  have "Suc (length (filter (\<lambda>p. p = Holding) ((phases s)[i := Finished])))
      = length (filter (\<lambda>p. p = Holding) (phases s))" by simp
  then show ?thesis by (simp add: s' holders_def)
qed

lemma run_invariant:
  "run s es = Some s' \<Longrightarrow> holders s' + sem_value s' = holders s + sem_value s"
proof (induction es arbitrary: s)
  case Nil
  then show ?case by simp
next
  case (Cons e es)
  then obtain s1 where 1: "step s e = Some s1" and 2: "run s1 es = Some s'"
    by (auto split: option.splits)
  from Cons.IH [OF 2] step_invariant [OF 1] show ?case by simp
qed

text \<open>
  Claim C9. For every capacity \<open>n\<close>, every number \<open>k\<close> of wallets and every sequence of
  acquisitions and releases the tasks can perform, the number of tasks that hold the
  semaphore is at most \<open>n\<close> in the state reached; with the free permits it is exactly \<open>n\<close>.
\<close>

theorem semaphore_bound:
  assumes "run (batch n k) es = Some s"
  shows "holders s \<le> n \<and> holders s + sem_value s = n"
proof -
  have "holders (batch n k) = 0" by (simp add: holders_def batch_def)
  with run_invariant [OF assms] have "holders s + sem_value s = n" by (simp add: batch_def)
  then show ?thesis by simp
qed

theorem semaphore_bound_witness:
  "run (batch 1 2) [Acquire 0, Release 0, Acquire 1]
     = Some \<lparr>sem_value = 0, phases = [Finished, Holding]\<rparr>
   \<and> holders \<lparr>sem_value = 0, phases = [Finished, Holding]\<rparr> \<le> 1"
proof -
  have r: "run (batch 1 2) [Acquire 0, Release 0, Acquire 1]
      = Some \<lparr>sem_value = 0, phases = [Finished, Holding]\<rparr>"
    by code_simp
  from semaphore_bound [OF r] r show ?thesis by simp
qed

end
